theory Spec2Isabelle
  imports Complex_Main
begin

section \<open>Numeric values of the array library\<close>

text \<open>
  The service computes on float32/float64 arrays. An array element is modelled as an exact
  real number or one of the three IEEE-754 special values. Finite arithmetic is exact
  (no rounding, no overflow to infinity); the special values follow the IEEE-754 rules
  that the source relies on (division by zero gives an infinity, \<open>0 * inf\<close> and
  \<open>inf - inf\<close> give NaN, every comparison with NaN is false). Signed zeros are not
  distinguished.
\<close>

datatype npfloat = Fin real | PInf | NInf | NaN


fun f_neg :: "npfloat \<Rightarrow> npfloat" where
  "f_neg (Fin a) = Fin (- a)"
| "f_neg PInf = NInf"
| "f_neg NInf = PInf"
| "f_neg NaN = NaN"

fun f_add :: "npfloat \<Rightarrow> npfloat \<Rightarrow> npfloat" where
  "f_add NaN _ = NaN"
| "f_add _ NaN = NaN"
| "f_add (Fin a) (Fin b) = Fin (a + b)"
| "f_add PInf NInf = NaN"
| "f_add NInf PInf = NaN"
| "f_add PInf _ = PInf"
| "f_add NInf _ = NInf"
| "f_add _ PInf = PInf"
| "f_add _ NInf = NInf"

definition f_sub :: "npfloat \<Rightarrow> npfloat \<Rightarrow> npfloat" where
  "f_sub a b = f_add a (f_neg b)"

text \<open>The sign of a value: \<open>None\<close> for NaN, otherwise -1, 0 or 1.\<close>

fun f_sign :: "npfloat \<Rightarrow> int option" where
  "f_sign NaN = None"
| "f_sign PInf = Some 1"
| "f_sign NInf = Some (- 1)"
| "f_sign (Fin a) = Some (if a < 0 then - 1 else if a = 0 then 0 else 1)"

definition inf_of_sign :: "int \<Rightarrow> npfloat" where
  "inf_of_sign s = (if s < 0 then NInf else if s = 0 then NaN else PInf)"

fun f_mul :: "npfloat \<Rightarrow> npfloat \<Rightarrow> npfloat" where
  "f_mul (Fin a) (Fin b) = Fin (a * b)"
| "f_mul a b =
     (case (f_sign a, f_sign b) of
        (Some s, Some t) \<Rightarrow> inf_of_sign (s * t)
      | _ \<Rightarrow> NaN)"

fun f_div :: "npfloat \<Rightarrow> npfloat \<Rightarrow> npfloat" where
  "f_div NaN _ = NaN"
| "f_div _ NaN = NaN"
| "f_div (Fin a) (Fin b) =
     (if b = 0 then (if a = 0 then NaN else if a < 0 then NInf else PInf) else Fin (a / b))"
| "f_div (Fin a) _ = Fin 0"
| "f_div PInf (Fin b) = (if b < 0 then NInf else PInf)"
| "f_div NInf (Fin b) = (if b < 0 then PInf else NInf)"
| "f_div _ _ = NaN"

text \<open>Comparisons: false as soon as one side is NaN.\<close>

fun f_less :: "npfloat \<Rightarrow> npfloat \<Rightarrow> bool" where
  "f_less NaN _ = False"
| "f_less _ NaN = False"
| "f_less (Fin a) (Fin b) = (a < b)"
| "f_less NInf NInf = False"
| "f_less NInf _ = True"
| "f_less _ NInf = False"
| "f_less PInf _ = False"
| "f_less _ PInf = True"

definition f_le :: "npfloat \<Rightarrow> npfloat \<Rightarrow> bool" where
  "f_le a b = (f_less a b \<or> (a = b \<and> a \<noteq> NaN))"

fun f_sqrt :: "npfloat \<Rightarrow> npfloat" where
  "f_sqrt (Fin a) = (if a < 0 then NaN else Fin (sqrt a))"
| "f_sqrt PInf = PInf"
| "f_sqrt _ = NaN"


section \<open>Exceptions and arrays\<close>

text \<open>
  Every exception the handlers can see is a value. \<open>HTTPException\<close> is the web framework's
  exception class: it derives from \<open>Exception\<close>, so a handler's \<open>except Exception\<close> clause
  catches it like any other. The detail of an HTTP error is kept structured: the source
  builds it with f-strings, and \<open>StrOf e\<close> stands for \<open>str(e)\<close>.
\<close>

datatype validation_error = GreaterThanEqual string | LessThanEqual string

datatype exc =
    ValueError string
  | TypeError string
  | KeyError string
  | IndexError string
  | UnboundLocalError string
  | RuntimeError string
  | OverflowError string
  | LibraryError string
  | HTTPException nat detail
and detail =
    NoNodesProvided
  | NodesFewerThanClusters nat int
  | FeatureNamesMismatch nat nat
  | ValidationErrors "validation_error list"
  | StrOf exc

text \<open>\<open>bind\<close> on results: the first exception aborts the rest of the block.\<close>

definition bind_exc :: "exc + 'a \<Rightarrow> ('a \<Rightarrow> exc + 'b) \<Rightarrow> exc + 'b" where
  "bind_exc r k = (case r of Inl e \<Rightarrow> Inl e | Inr v \<Rightarrow> k v)"

type_synonym matrix = "npfloat list list"

datatype ndarray = Array0 npfloat | Array1 "npfloat list" | Array2 matrix

text \<open>
  \<open>np.array(rows, dtype=np.float32)\<close> on a list of lists of floats: the empty list gives a
  one-dimensional array of shape \<open>(0,)\<close>, rows of one common length a two-dimensional
  array, ragged rows raise \<open>ValueError\<close>.
\<close>

fun np_array :: "npfloat list list \<Rightarrow> exc + ndarray" where
  "np_array [] = Inr (Array1 [])"
| "np_array (r # rs) =
     (if \<forall>r' \<in> set rs. length r' = length r then Inr (Array2 (r # rs))
      else Inl (ValueError ''setting an array element with a sequence''))"

fun shape :: "ndarray \<Rightarrow> nat list" where
  "shape (Array0 _) = []"
| "shape (Array1 xs) = [length xs]"
| "shape (Array2 rows) = [length rows, (case rows of [] \<Rightarrow> 0 | r # _ \<Rightarrow> length r)]"

text \<open>\<open>n, f = X.shape\<close>: tuple unpacking of exactly two values.\<close>

fun unpack2 :: "nat list \<Rightarrow> exc + nat \<times> nat" where
  "unpack2 [a, b] = Inr (a, b)"
| "unpack2 (a # b # c # _) = Inl (ValueError ''too many values to unpack (expected 2)'')"
| "unpack2 _ = Inl (ValueError ''not enough values to unpack (expected 2)'')"

fun as_matrix :: "ndarray \<Rightarrow> matrix" where
  "as_matrix (Array2 rows) = rows"
| "as_matrix (Array1 xs) = []"
| "as_matrix (Array0 x) = []"

text \<open>Indexing a Python list with a non-negative index.\<close>

definition list_get :: "'a list \<Rightarrow> nat \<Rightarrow> exc + 'a" where
  "list_get xs i = (if i < length xs then Inr (xs ! i) else Inl (IndexError ''list index out of range''))"

text \<open>
  A Python \<open>dict\<close> keeps insertion order; assigning to a key that is present replaces its
  value in place.
\<close>

fun dict_set :: "('k \<times> 'v) list \<Rightarrow> 'k \<Rightarrow> 'v \<Rightarrow> ('k \<times> 'v) list" where
  "dict_set [] k v = [(k, v)]"
| "dict_set ((k', v') # d) k v = (if k' = k then (k, v) # d else (k', v') # dict_set d k v)"

definition get_default :: "'a \<Rightarrow> 'a option \<Rightarrow> 'a" where
  "get_default d v = (case v of None \<Rightarrow> d | Some x \<Rightarrow> x)"

definition dict_get :: "(string \<times> 'v) list \<Rightarrow> string \<Rightarrow> exc + 'v" where
  "dict_get d k = (case map_of d k of None \<Rightarrow> Inl (KeyError k) | Some v \<Rightarrow> Inr v)"

section \<open>Utility functions of the service\<close>

subsection \<open>build_adj_matrix\<close>

definition zeros :: "nat \<Rightarrow> nat \<Rightarrow> matrix" where
  "zeros n m = replicate n (replicate m (Fin 0))"

definition ones :: "nat \<Rightarrow> nat \<Rightarrow> matrix" where
  "ones n m = replicate n (replicate m (Fin 1))"

definition ncols :: "matrix \<Rightarrow> nat" where
  "ncols A = (case A of [] \<Rightarrow> 0 | r # _ \<Rightarrow> length r)"

text \<open>
  \<open>A[i, j] = v\<close> on a two-dimensional array: a negative index counts from the end, an
  index outside the array raises \<open>IndexError\<close>.
\<close>

definition set_item :: "matrix \<Rightarrow> int \<Rightarrow> int \<Rightarrow> npfloat \<Rightarrow> exc + matrix" where
  "set_item A i j v =
     (let n = int (length A); m = int (ncols A);
          i' = (if i < 0 then i + n else i);
          j' = (if j < 0 then j + m else j)
      in if 0 \<le> i' \<and> i' < n \<and> 0 \<le> j' \<and> j' < m
         then Inr (A[nat i' := (A ! nat i')[nat j' := v]])
         else Inl (IndexError ''index is out of bounds''))"

text \<open>A \<open>for\<close> loop whose body may raise.\<close>

fun for_each :: "('s \<Rightarrow> 'a \<Rightarrow> exc + 's) \<Rightarrow> 's \<Rightarrow> 'a list \<Rightarrow> exc + 's" where
  "for_each body s [] = Inr s"
| "for_each body s (x # xs) = bind_exc (body s x) (\<lambda>s'. for_each body s' xs)"

text \<open>
  One round of the edge loop. An entry with fewer than two elements is skipped; the pair is
  written only when both indices pass the range test.
\<close>

definition add_edge :: "nat \<Rightarrow> matrix \<Rightarrow> int list \<Rightarrow> exc + matrix" where
  "add_edge n A e =
     (if length e \<ge> 2 then
        (let i = e ! 0; j = e ! 1 in
         if 0 \<le> i \<and> i < int n \<and> 0 \<le> j \<and> j < int n
         then bind_exc (set_item A i j (Fin 1)) (\<lambda>A'. set_item A' j i (Fin 1))
         else Inr A)
      else Inr A)"

definition add_self_loops :: "nat \<Rightarrow> matrix \<Rightarrow> exc + matrix" where
  "add_self_loops n A = for_each (\<lambda>A i. set_item A (int i) (int i) (Fin 1)) A [0..<n]"

definition build_adj_matrix :: "nat \<Rightarrow> int list list \<Rightarrow> exc + matrix" where
  "build_adj_matrix n edges =
     bind_exc (for_each (add_edge n) (zeros n n) edges) (add_self_loops n)"

subsection \<open>normalize_adj\<close>

definition np_sum :: "npfloat list \<Rightarrow> npfloat" where
  "np_sum xs = foldl f_add (Fin 0) xs"

text \<open>\<open>np.where(c, a, b)\<close> receives both arrays fully evaluated and selects elementwise.\<close>

definition np_where :: "bool list \<Rightarrow> npfloat list \<Rightarrow> npfloat list \<Rightarrow> npfloat list" where
  "np_where c a b = map (\<lambda>(c, a, b). if c then a else b) (zip c (zip a b))"

definition np_diag :: "npfloat list \<Rightarrow> matrix" where
  "np_diag d = map (\<lambda>i. map (\<lambda>j. if i = j then d ! i else Fin 0) [0..<length d]) [0..<length d]"

definition dot :: "npfloat list \<Rightarrow> npfloat list \<Rightarrow> npfloat" where
  "dot u v = np_sum (map (\<lambda>(a, b). f_mul a b) (zip u v))"

definition column :: "matrix \<Rightarrow> nat \<Rightarrow> npfloat list" where
  "column B j = map (\<lambda>r. r ! j) B"

text \<open>The \<open>@\<close> operator on two-dimensional arrays; mismatched inner dimensions raise.\<close>

definition matmul :: "matrix \<Rightarrow> matrix \<Rightarrow> exc + matrix" where
  "matmul A B =
     (if ncols A = length B
      then Inr (map (\<lambda>r. map (\<lambda>j. dot r (column B j)) [0..<ncols B]) A)
      else Inl (ValueError ''matmul: mismatch in core dimension''))"

text \<open>
  \<open>np.where(D > 0, 1.0 / np.sqrt(D), 0.0)\<close>: the quotient is computed for every entry,
  the zero-degree entries included, and then masked.
\<close>

definition inv_sqrt_degrees :: "npfloat list \<Rightarrow> npfloat list" where
  "inv_sqrt_degrees D =
     np_where (map (\<lambda>d. f_less (Fin 0) d) D)
              (map (\<lambda>d. f_div (Fin 1) (f_sqrt d)) D)
              (map (\<lambda>d. Fin 0) D)"

definition normalize_adj :: "matrix \<Rightarrow> exc + matrix" where
  "normalize_adj A =
     (let D = map np_sum A;
          D_inv_sqrt = inv_sqrt_degrees D;
          D_mat = np_diag D_inv_sqrt
      in bind_exc (matmul D_mat A) (\<lambda>DA. matmul DA D_mat))"

subsection \<open>normalize_scores\<close>

text \<open>\<open>min\<close> and \<open>max\<close> of an array: NaN as soon as one element is NaN.\<close>

definition f_min :: "npfloat \<Rightarrow> npfloat \<Rightarrow> npfloat" where
  "f_min a b = (if a = NaN \<or> b = NaN then NaN else if f_less b a then b else a)"

definition f_max :: "npfloat \<Rightarrow> npfloat \<Rightarrow> npfloat" where
  "f_max a b = (if a = NaN \<or> b = NaN then NaN else if f_less a b then b else a)"

fun np_min :: "npfloat list \<Rightarrow> exc + npfloat" where
  "np_min [] = Inl (ValueError ''zero-size array to reduction operation minimum which has no identity'')"
| "np_min (x # xs) = Inr (foldl f_min x xs)"

fun np_max :: "npfloat list \<Rightarrow> exc + npfloat" where
  "np_max [] = Inl (ValueError ''zero-size array to reduction operation maximum which has no identity'')"
| "np_max (x # xs) = Inr (foldl f_max x xs)"

definition normalize_scores :: "npfloat list \<Rightarrow> exc + npfloat list" where
  "normalize_scores scores =
     bind_exc (np_min scores) (\<lambda>s_min.
     bind_exc (np_max scores) (\<lambda>s_max.
       if f_less (f_sub s_max s_min) (Fin (1 / 1000000))
       then Inr (map (\<lambda>_. Fin 50) scores)
       else Inr (map (\<lambda>s. f_div (f_mul (Fin 100) (f_sub s s_min)) (f_sub s_max s_min)) scores)))"

text \<open>Shape and content predicates for adjacency matrices.\<close>

definition is_square :: "nat \<Rightarrow> matrix \<Rightarrow> bool" where
  "is_square n A = (length A = n \<and> (\<forall>i<n. length (A ! i) = n))"

text \<open>The range test of the edge loop: the edges that are written to the matrix.\<close>

definition in_range :: "nat \<Rightarrow> int list \<Rightarrow> bool" where
  "in_range n e = (length e \<ge> 2 \<and> 0 \<le> e ! 0 \<and> e ! 0 < int n \<and> 0 \<le> e ! 1 \<and> e ! 1 < int n)"

definition adj_inv :: "nat \<Rightarrow> matrix \<Rightarrow> bool" where
  "adj_inv n A = (is_square n A \<and> (\<forall>i<n. \<forall>j<n. A ! i ! j = A ! j ! i)
     \<and> (\<forall>i<n. \<forall>j<n. A ! i ! j = Fin 0 \<or> A ! i ! j = Fin 1))"

section \<open>Request models\<close>

text \<open>
  A request body after JSON parsing, with the declared defaults filled in for absent
  fields. The field types are enforced by the types of the records; the \<open>Field(ge=, le=)\<close>
  constraints are checked by the \<open>validate\<close> functions below, which is what the web
  framework does before it calls a handler.
\<close>

record GCNRequest =
  nodes :: "string list"
  features :: "npfloat list list"
  adjacency :: "int list list"
  train_epochs :: int

record AdvancedGCNRequest =
  nodes :: "string list"
  features :: "npfloat list list"
  adjacency :: "int list list option"
  returns :: "npfloat list list option"
  model_type :: string
  train_epochs :: int
  hidden_dim :: int
  dropout :: npfloat
  learning_rate :: npfloat
  correlation_threshold :: npfloat
  use_knn_graph :: bool
  knn_k :: int

record MultiModelRequest =
  nodes :: "string list"
  features :: "npfloat list list"
  adjacency :: "int list list option"
  model_types :: "string list"
  train_epochs :: int
  returns :: "npfloat list list option"

record StockClusterRequest =
  nodes :: "string list"
  features :: "npfloat list list"
  n_clusters :: int

record FeatureImportanceRequest =
  nodes :: "string list"
  features :: "npfloat list list"
  feature_names :: "string list"
  adjacency :: "int list list"

definition field_int :: "string \<Rightarrow> int \<Rightarrow> int \<Rightarrow> int \<Rightarrow> validation_error list" where
  "field_int name ge le v =
     (if v < ge then [GreaterThanEqual name] else []) @ (if le < v then [LessThanEqual name] else [])"

definition field_float :: "string \<Rightarrow> npfloat \<Rightarrow> npfloat \<Rightarrow> npfloat \<Rightarrow> validation_error list" where
  "field_float name ge le v =
     (if f_le ge v then [] else [GreaterThanEqual name]) @ (if f_le v le then [] else [LessThanEqual name])"

text \<open>
  The constraints each model declares. \<open>GCNRequest\<close>, \<open>MultiModelRequest\<close> and
  \<open>FeatureImportanceRequest\<close> declare none: their \<open>train_epochs\<close> is a plain \<open>int\<close>.
\<close>

definition validate_GCNRequest :: "GCNRequest \<Rightarrow> validation_error list" where
  "validate_GCNRequest req = []"

definition validate_AdvancedGCNRequest :: "AdvancedGCNRequest \<Rightarrow> validation_error list" where
  "validate_AdvancedGCNRequest req =
     field_int ''train_epochs'' 0 500 (AdvancedGCNRequest.train_epochs req) @
     field_int ''hidden_dim'' 8 256 (hidden_dim req) @
     field_float ''dropout'' (Fin 0) (Fin (1 / 2)) (dropout req) @
     field_float ''learning_rate'' (Fin (1 / 10000)) (Fin (1 / 10)) (learning_rate req) @
     field_float ''correlation_threshold'' (Fin 0) (Fin 1) (correlation_threshold req) @
     field_int ''knn_k'' 1 20 (knn_k req)"

definition validate_MultiModelRequest :: "MultiModelRequest \<Rightarrow> validation_error list" where
  "validate_MultiModelRequest req = []"

definition validate_StockClusterRequest :: "StockClusterRequest \<Rightarrow> validation_error list" where
  "validate_StockClusterRequest req = field_int ''n_clusters'' 2 20 (n_clusters req)"

definition validate_FeatureImportanceRequest :: "FeatureImportanceRequest \<Rightarrow> validation_error list" where
  "validate_FeatureImportanceRequest req = []"

section \<open>The numerical libraries\<close>

text \<open>
  The tensor framework, the clustering library and the statistics library are not part of
  the repository. Their operations are parameters of the model: each may return a value or
  raise. \<open>'w\<close> is the framework's mutable state of a model instance (its randomly
  initialised weights, and the optimizer state once training has started).
\<close>

datatype pyval = PNone | PInt int | PFloat npfloat | PIntList "int list" | PBool bool

text \<open>A module instance: its class, \<open>in_feats\<close>, and the keyword parameters after binding.\<close>

datatype module = Module (class_name: string) (in_feats: nat) (params: "(string \<times> pyval) list")

record 'w libs =
  nn_init :: "module \<Rightarrow> exc + 'w"
  net_forward :: "bool \<Rightarrow> module \<Rightarrow> 'w \<Rightarrow> matrix \<Rightarrow> matrix \<Rightarrow> exc + npfloat list"
  adam :: "'w \<Rightarrow> npfloat \<Rightarrow> 'w"
  optim_step :: "module \<Rightarrow> 'w \<Rightarrow> matrix \<Rightarrow> matrix \<Rightarrow> npfloat list \<Rightarrow> exc + 'w \<times> npfloat"
  input_gradients :: "module \<Rightarrow> 'w \<Rightarrow> matrix \<Rightarrow> matrix \<Rightarrow> exc + npfloat list"
  corrcoef :: "ndarray \<Rightarrow> exc + ndarray"
  kneighbors_graph :: "matrix \<Rightarrow> int \<Rightarrow> exc + matrix"
  kmeans :: "matrix \<Rightarrow> int \<Rightarrow> exc + int list \<times> matrix"
  pca :: "matrix \<Rightarrow> exc + matrix \<times> npfloat list"
  spearmanr :: "npfloat list \<Rightarrow> npfloat list \<Rightarrow> exc + npfloat"

section \<open>The model factory\<close>

text \<open>
  A class is its name and the keyword parameters its \<open>__init__\<close> accepts after
  \<open>in_feats\<close>, with their defaults.
\<close>

type_synonym model_class = "string \<times> (string \<times> pyval) list"

definition SimpleGCN :: model_class where
  "SimpleGCN = (''SimpleGCN'', [(''hidden'', PInt 32), (''out_feats'', PInt 1)])"

definition DeepGCN :: model_class where
  "DeepGCN = (''DeepGCN'',
     [(''hidden_dims'', PIntList [64, 32, 16]), (''out_feats'', PInt 1),
      (''dropout'', PFloat (Fin (2 / 10))), (''use_bn'', PBool True)])"

definition GATModel :: model_class where
  "GATModel = (''GATModel'',
     [(''hidden'', PInt 64), (''out_feats'', PInt 1), (''heads'', PInt 4),
      (''dropout'', PFloat (Fin (2 / 10)))])"

definition HybridGCN :: model_class where
  "HybridGCN = (''HybridGCN'',
     [(''gcn_hidden'', PInt 32), (''lstm_hidden'', PInt 32), (''out_feats'', PInt 1),
      (''dropout'', PFloat (Fin (2 / 10)))])"

definition TemporalGCN :: model_class where
  "TemporalGCN = (''TemporalGCN'',
     [(''seq_len'', PInt 20), (''hidden'', PInt 32), (''out_feats'', PInt 1),
      (''num_layers'', PInt 2), (''dropout'', PFloat (Fin (2 / 10)))])"

text \<open>
  Binding the keyword arguments of a call, in the order they are passed: a keyword the
  signature does not have raises \<open>TypeError\<close>, whatever value it carries.
\<close>

fun bind_kwargs :: "(string \<times> pyval) list \<Rightarrow> (string \<times> pyval) list \<Rightarrow> exc + (string \<times> pyval) list" where
  "bind_kwargs sig [] = Inr sig"
| "bind_kwargs sig ((k, v) # kwargs) =
     (if k \<in> set (map fst sig) then bind_kwargs (dict_set sig k v) kwargs
      else Inl (TypeError (''__init__() got an unexpected keyword argument '' @ k)))"

text \<open>Calling a class: bind the arguments, then run the constructor body in the framework.\<close>

definition instantiate :: "'w libs \<Rightarrow> model_class \<Rightarrow> nat \<Rightarrow> (string \<times> pyval) list \<Rightarrow> exc + module \<times> 'w" where
  "instantiate env cls f kwargs =
     bind_exc (bind_kwargs (snd cls) kwargs) (\<lambda>ps.
     bind_exc (nn_init env (Module (fst cls) f ps)) (\<lambda>w.
       Inr (Module (fst cls) f ps, w)))"

definition models :: "(string \<times> model_class) list" where
  "models = [(''simple'', SimpleGCN), (''deep'', DeepGCN), (''gat'', GATModel),
             (''hybrid'', HybridGCN), (''temporal'', TemporalGCN)]"

definition create_model :: "'w libs \<Rightarrow> string \<Rightarrow> nat \<Rightarrow> (string \<times> pyval) list \<Rightarrow> exc + module \<times> 'w" where
  "create_model env mtype f kwargs =
     (case map_of models mtype of
        None \<Rightarrow> Inl (ValueError (''Unknown model type: '' @ mtype))
      | Some cls \<Rightarrow> instantiate env cls f kwargs)"

text \<open>
  Calling a model on the feature tensor and the adjacency tensor. The handlers pass a
  two-dimensional feature tensor; \<open>TemporalGCN.forward\<close> starts by unpacking its shape into
  three values, which raises on it. The numerical result of the other classes is the
  framework's.
\<close>

definition forward :: "'w libs \<Rightarrow> bool \<Rightarrow> module \<Rightarrow> 'w \<Rightarrow> matrix \<Rightarrow> matrix \<Rightarrow> exc + npfloat list" where
  "forward env training m w x adj =
     (if class_name m = ''TemporalGCN''
      then Inl (ValueError ''not enough values to unpack (expected 3, got 2)'')
      else net_forward env training m w x adj)"

section \<open>Training\<close>

record train_info =
  final_loss :: npfloat
  history :: "(nat \<times> npfloat) list"

text \<open>
  One epoch of \<open>train_model\<close>: the forward pass in training mode, then the loss, the
  backward pass and the optimizer step (the framework's), then the snapshot every tenth
  epoch. The loop state is the model state, the last loss and the history.
\<close>

definition train_epoch ::
  "'w libs \<Rightarrow> module \<Rightarrow> matrix \<Rightarrow> matrix \<Rightarrow>
   'w \<times> npfloat option \<times> (nat \<times> npfloat) list \<Rightarrow> nat \<Rightarrow>
   exc + 'w \<times> npfloat option \<times> (nat \<times> npfloat) list" where
  "train_epoch env m x adj st epoch =
     (case st of (w, prev, hist) \<Rightarrow>
        bind_exc (forward env True m w x adj) (\<lambda>out.
        bind_exc (optim_step env m w x adj out) (\<lambda>(w', loss).
          Inr (w', Some loss, if epoch mod 10 = 0 then hist @ [(epoch, loss)] else hist))))"

text \<open>
  \<open>range(epochs)\<close> is empty for \<open>epochs \<le> 0\<close>; the final \<open>loss.item()\<close> then reads a
  variable that was never assigned.
\<close>

definition train_model ::
  "'w libs \<Rightarrow> module \<Rightarrow> 'w \<Rightarrow> matrix \<Rightarrow> matrix \<Rightarrow> int \<Rightarrow> npfloat \<Rightarrow> exc + 'w \<times> train_info" where
  "train_model env m w x adj epochs lr =
     bind_exc (for_each (train_epoch env m x adj) (adam env w lr, None, []) [0..<nat epochs])
       (\<lambda>(w', prev, hist).
          case prev of
            None \<Rightarrow> Inl (UnboundLocalError ''loss'')
          | Some loss \<Rightarrow> Inr (w', \<lparr>final_loss = loss, history = hist\<rparr>))"

section \<open>Graph construction\<close>

fun f_abs :: "npfloat \<Rightarrow> npfloat" where
  "f_abs (Fin a) = Fin \<bar>a\<bar>"
| "f_abs NaN = NaN"
| "f_abs _ = PInf"

definition np_eye :: "nat \<Rightarrow> matrix" where
  "np_eye n = map (\<lambda>i. map (\<lambda>j. if i = j then Fin 1 else Fin 0) [0..<n]) [0..<n]"

definition transpose_m :: "matrix \<Rightarrow> matrix" where
  "transpose_m A = map (column A) [0..<ncols A]"

text \<open>Elementwise binary operations on two-dimensional arrays, with numpy's broadcasting.\<close>

definition bdim :: "nat \<Rightarrow> nat \<Rightarrow> nat option" where
  "bdim a b = (if a = b then Some a else if a = 1 then Some b else if b = 1 then Some a else None)"

definition bget :: "matrix \<Rightarrow> nat \<Rightarrow> nat \<Rightarrow> npfloat" where
  "bget A i j = A ! (if length A = 1 then 0 else i) ! (if ncols A = 1 then 0 else j)"

definition broadcast2 :: "(npfloat \<Rightarrow> npfloat \<Rightarrow> npfloat) \<Rightarrow> matrix \<Rightarrow> matrix \<Rightarrow> exc + matrix" where
  "broadcast2 op A B =
     (case (bdim (length A) (length B), bdim (ncols A) (ncols B)) of
        (Some r, Some c) \<Rightarrow>
          Inr (map (\<lambda>i. map (\<lambda>j. op (bget A i j) (bget B i j)) [0..<c]) [0..<r])
      | _ \<Rightarrow> Inl (ValueError ''operands could not be broadcast together''))"

definition threshold_entry :: "npfloat \<Rightarrow> npfloat \<Rightarrow> npfloat" where
  "threshold_entry threshold c = (if f_less threshold (f_abs c) then Fin 1 else Fin 0)"

text \<open>\<open>np.fill_diagonal(adj, 0)\<close>: needs at least two dimensions.\<close>

fun fill_diagonal_zero :: "ndarray \<Rightarrow> exc + matrix" where
  "fill_diagonal_zero (Array2 rows) =
     Inr (map (\<lambda>i. (rows ! i)[i := Fin 0]) [0..<length rows])"
| "fill_diagonal_zero _ = Inl (ValueError ''array must be at least 2-d'')"

fun map_ndarray :: "(npfloat \<Rightarrow> npfloat) \<Rightarrow> ndarray \<Rightarrow> ndarray" where
  "map_ndarray g (Array0 x) = Array0 (g x)"
| "map_ndarray g (Array1 xs) = Array1 (map g xs)"
| "map_ndarray g (Array2 rows) = Array2 (map (map g) rows)"

definition build_correlation_graph :: "'w libs \<Rightarrow> ndarray \<Rightarrow> npfloat \<Rightarrow> exc + matrix" where
  "build_correlation_graph env rets threshold =
     bind_exc (corrcoef env rets) (\<lambda>corr_matrix.
       fill_diagonal_zero (map_ndarray (threshold_entry threshold) corr_matrix))"

definition build_knn_graph :: "'w libs \<Rightarrow> matrix \<Rightarrow> int \<Rightarrow> exc + matrix" where
  "build_knn_graph env X k =
     bind_exc (kneighbors_graph env X k) (\<lambda>adj. broadcast2 f_max adj (transpose_m adj))"

text \<open>
  The graph source of a request. \<open>if req.adjacency:\<close> tests the truth value of the field:
  \<open>None\<close> and the empty list are both false.
\<close>

datatype graph_source =
    ExplicitAdjacency "int list list"
  | CorrelationGraph "npfloat list list"
  | KnnGraph
  | FullyConnected

definition advanced_graph_source :: "AdvancedGCNRequest \<Rightarrow> graph_source" where
  "advanced_graph_source req =
     (case AdvancedGCNRequest.adjacency req of
        Some (e # es) \<Rightarrow> ExplicitAdjacency (e # es)
      | _ \<Rightarrow>
        (case AdvancedGCNRequest.returns req of
           Some (r # rs) \<Rightarrow> CorrelationGraph (r # rs)
         | _ \<Rightarrow> if use_knn_graph req then KnnGraph else FullyConnected))"

definition compare_graph_source :: "MultiModelRequest \<Rightarrow> graph_source" where
  "compare_graph_source req =
     (case MultiModelRequest.adjacency req of
        Some (e # es) \<Rightarrow> ExplicitAdjacency (e # es)
      | _ \<Rightarrow>
        (case MultiModelRequest.returns req of
           Some (r # rs) \<Rightarrow> CorrelationGraph (r # rs)
         | _ \<Rightarrow> FullyConnected))"

definition build_graph ::
  "'w libs \<Rightarrow> graph_source \<Rightarrow> matrix \<Rightarrow> nat \<Rightarrow> npfloat \<Rightarrow> int \<Rightarrow> exc + matrix" where
  "build_graph env src X n threshold k =
     (case src of
        ExplicitAdjacency edges \<Rightarrow> build_adj_matrix n edges
      | CorrelationGraph rets \<Rightarrow>
          bind_exc (np_array rets) (\<lambda>rets_array.
          bind_exc (build_correlation_graph env rets_array threshold) (\<lambda>A.
            broadcast2 f_add A (np_eye n)))
      | KnnGraph \<Rightarrow>
          bind_exc (build_knn_graph env X k) (\<lambda>A. broadcast2 f_add A (np_eye n))
      | FullyConnected \<Rightarrow> Inr (ones n n))"

section \<open>Scores and rankings\<close>

text \<open>\<open>{nodes[i]: float(values[i]) for i in range(n)}\<close>\<close>

definition dict_of_nodes :: "string list \<Rightarrow> 'v list \<Rightarrow> nat \<Rightarrow> exc + (string \<times> 'v) list" where
  "dict_of_nodes names values n =
     for_each (\<lambda>d i. bind_exc (list_get names i) (\<lambda>k.
                       bind_exc (list_get values i) (\<lambda>v. Inr (dict_set d k v)))) [] [0..<n]"

text \<open>\<open>[(nodes[i], values[i]) for i in range(n)]\<close>\<close>

definition pairs_of_nodes :: "string list \<Rightarrow> 'v list \<Rightarrow> nat \<Rightarrow> exc + (string \<times> 'v) list" where
  "pairs_of_nodes names values n =
     for_each (\<lambda>d i. bind_exc (list_get names i) (\<lambda>k.
                       bind_exc (list_get values i) (\<lambda>v. Inr (d @ [(k, v)])))) [] [0..<n]"

text \<open>
  \<open>sorted(items, key=..., reverse=True)\<close>: a stable sort by descending key. On keys without
  NaN this is the order Python produces.
\<close>

fun insert_desc :: "('a \<Rightarrow> npfloat) \<Rightarrow> 'a \<Rightarrow> 'a list \<Rightarrow> 'a list" where
  "insert_desc key x [] = [x]"
| "insert_desc key x (y # ys) =
     (if f_less (key x) (key y) then y # insert_desc key x ys else x # y # ys)"

definition sorted_desc :: "('a \<Rightarrow> npfloat) \<Rightarrow> 'a list \<Rightarrow> 'a list" where
  "sorted_desc key xs = foldr (insert_desc key) xs []"

text \<open>\<open>int(x)\<close> on a float truncates toward zero and raises on NaN and the infinities.\<close>

fun py_int :: "npfloat \<Rightarrow> exc + int" where
  "py_int (Fin a) = Inr (if 0 \<le> a then \<lfloor>a\<rfloor> else \<lceil>a\<rceil>)"
| "py_int NaN = Inl (ValueError ''cannot convert float NaN to integer'')"
| "py_int _ = Inl (OverflowError ''cannot convert float infinity to integer'')"

definition np_sum2 :: "matrix \<Rightarrow> npfloat" where
  "np_sum2 A = np_sum (concat A)"

section \<open>Request handlers\<close>

text \<open>
  Every handler body is wrapped in \<open>try: ... except Exception as e: raise
  HTTPException(status_code=500, detail=str(e))\<close>. The clause catches every exception
  raised in the body, the \<open>HTTPException\<close>s the body raises itself included. A handler
  result is the value it returns or the exception it raises; the JSON encoding of a
  returned value is not modelled.
\<close>

definition try_500 :: "exc + 'a \<Rightarrow> exc + 'a" where
  "try_500 r = (case r of Inl e \<Rightarrow> Inl (HTTPException 500 (StrOf e)) | Inr v \<Rightarrow> Inr v)"

text \<open>The status code of the HTTP response that the framework sends for a handler result.\<close>

fun status_code :: "exc + 'a \<Rightarrow> nat" where
  "status_code (Inr _) = 200"
| "status_code (Inl (HTTPException code _)) = code"
| "status_code (Inl _) = 500"

definition train_if_requested ::
  "'w libs \<Rightarrow> module \<Rightarrow> 'w \<Rightarrow> matrix \<Rightarrow> matrix \<Rightarrow> int \<Rightarrow> npfloat \<Rightarrow> exc + 'w \<times> train_info option" where
  "train_if_requested env m w x adj epochs lr =
     (if epochs > 0
      then bind_exc (train_model env m w x adj epochs lr) (\<lambda>(w', ti). Inr (w', Some ti))
      else Inr (w, None))"

subsection \<open>POST /gcn/predict\<close>

datatype predict_info =
    NoNodes
  | PredictInfo (n_nodes: nat) (n_features: nat) (epochs: int) (training: "train_info option")

record GCNResponse =
  scores :: "(string \<times> npfloat) list"
  info :: predict_info

definition gcn_predict :: "'w libs \<Rightarrow> GCNRequest \<Rightarrow> exc + GCNResponse" where
  "gcn_predict env req = try_500 (
     bind_exc (np_array (GCNRequest.features req)) (\<lambda>X.
     bind_exc (unpack2 (shape X)) (\<lambda>(n, f).
       if n = 0 then Inr \<lparr>scores = [], info = NoNodes\<rparr>
       else
         bind_exc (build_adj_matrix n (GCNRequest.adjacency req)) (\<lambda>A.
         bind_exc (normalize_adj A) (\<lambda>A_norm.
         bind_exc (instantiate env SimpleGCN f
                     [(''hidden'', PInt (max 16 (int f * 2))), (''out_feats'', PInt 1)]) (\<lambda>(model, w).
         bind_exc (train_if_requested env model w (as_matrix X) A_norm
                     (GCNRequest.train_epochs req) (Fin (1 / 100))) (\<lambda>(w', train_inf).
         bind_exc (forward env False model w' (as_matrix X) A_norm) (\<lambda>scores_tensor.
         bind_exc (normalize_scores scores_tensor) (\<lambda>norm_scores.
         bind_exc (dict_of_nodes (GCNRequest.nodes req) norm_scores n) (\<lambda>sc.
           Inr \<lparr>scores = sc,
                info = PredictInfo n f (GCNRequest.train_epochs req) train_inf\<rparr>))))))))))"

subsection \<open>POST /gcn/advanced\<close>

record AdvancedInfo =
  n_nodes :: nat
  n_features :: nat
  n_edges :: int
  train_epochs :: int
  training :: "train_info option"

record AdvancedResponse =
  scores :: "(string \<times> npfloat) list"
  ranking :: "(nat \<times> string \<times> npfloat) list"
  model_type :: string
  info :: AdvancedInfo

definition advanced_kwargs :: "AdvancedGCNRequest \<Rightarrow> (string \<times> pyval) list" where
  "advanced_kwargs req =
     [(''hidden'', if AdvancedGCNRequest.model_type req = ''simple''
                   then PInt (hidden_dim req) else PNone),
      (''hidden_dims'', if AdvancedGCNRequest.model_type req = ''deep''
                        then PIntList [hidden_dim req, hidden_dim req div 2] else PNone),
      (''dropout'', PFloat (dropout req))]"

definition gcn_advanced :: "'w libs \<Rightarrow> AdvancedGCNRequest \<Rightarrow> exc + AdvancedResponse" where
  "gcn_advanced env req = try_500 (
     bind_exc (np_array (AdvancedGCNRequest.features req)) (\<lambda>X.
     bind_exc (unpack2 (shape X)) (\<lambda>(n, f).
       if n = 0 then Inl (HTTPException 400 NoNodesProvided)
       else
         bind_exc (build_graph env (advanced_graph_source req) (as_matrix X) n
                     (correlation_threshold req) (knn_k req)) (\<lambda>A.
         bind_exc (normalize_adj A) (\<lambda>A_norm.
         bind_exc (create_model env (AdvancedGCNRequest.model_type req) f
                     (advanced_kwargs req)) (\<lambda>(model, w).
         bind_exc (train_if_requested env model w (as_matrix X) A_norm
                     (AdvancedGCNRequest.train_epochs req) (learning_rate req)) (\<lambda>(w', train_inf).
         bind_exc (forward env False model w' (as_matrix X) A_norm) (\<lambda>scores_tensor.
         bind_exc (normalize_scores scores_tensor) (\<lambda>norm_scores.
         bind_exc (dict_of_nodes (AdvancedGCNRequest.nodes req) norm_scores n) (\<lambda>sc.
         bind_exc (py_int (f_sub (np_sum2 A) (Fin (real n)))) (\<lambda>edges_count.
           Inr \<lparr>scores = sc,
                ranking = map (\<lambda>(i, (k, v)). (i + 1, k, v)) (enumerate 0 (sorted_desc snd sc)),
                model_type = AdvancedGCNRequest.model_type req,
                info = \<lparr>n_nodes = n, n_features = f, n_edges = edges_count,
                         train_epochs = AdvancedGCNRequest.train_epochs req,
                         training = train_inf\<rparr>\<rparr>)))))))))))"

subsection \<open>POST /gcn/compare\<close>

datatype compare_entry =
    ModelScores "(string \<times> npfloat) list" "(string \<times> npfloat) list"
  | ModelError detail
  | ModelAgreement "(string \<times> string \<times> npfloat) list"

fun has_scores :: "compare_entry \<Rightarrow> bool" where
  "has_scores (ModelScores _ _) = True"
| "has_scores _ = False"

fun entry_scores :: "compare_entry \<Rightarrow> (string \<times> npfloat) list" where
  "entry_scores (ModelScores sc _) = sc"
| "entry_scores _ = []"

record CompareResponse =
  results :: "(string \<times> compare_entry) list"
  n_nodes :: nat
  n_features :: nat

text \<open>The body of the inner \<open>try\<close> for one model type.\<close>

definition compare_one ::
  "'w libs \<Rightarrow> MultiModelRequest \<Rightarrow> nat \<Rightarrow> nat \<Rightarrow> matrix \<Rightarrow> matrix \<Rightarrow> string \<Rightarrow> exc + compare_entry" where
  "compare_one env req n f x adj mtype =
     bind_exc (create_model env mtype f []) (\<lambda>(model, w).
     bind_exc (train_if_requested env model w x adj
                 (MultiModelRequest.train_epochs req) (Fin (1 / 100))) (\<lambda>(w', _).
     bind_exc (forward env False model w' x adj) (\<lambda>sc.
     bind_exc (normalize_scores sc) (\<lambda>norm_scores.
     bind_exc (dict_of_nodes (MultiModelRequest.nodes req) norm_scores n) (\<lambda>d.
     bind_exc (pairs_of_nodes (MultiModelRequest.nodes req) norm_scores n) (\<lambda>ps.
       Inr (ModelScores d (take 5 (sorted_desc snd ps)))))))))"

text \<open>One round of the loop over \<open>model_types\<close>: a failure is stored under the model's key.\<close>

definition compare_step ::
  "'w libs \<Rightarrow> MultiModelRequest \<Rightarrow> nat \<Rightarrow> nat \<Rightarrow> matrix \<Rightarrow> matrix \<Rightarrow>
   (string \<times> compare_entry) list \<Rightarrow> string \<Rightarrow> (string \<times> compare_entry) list" where
  "compare_step env req n f x adj res mtype =
     (case compare_one env req n f x adj mtype of
        Inr entry \<Rightarrow> dict_set res mtype entry
      | Inl e \<Rightarrow> dict_set res mtype (ModelError (StrOf e)))"

text \<open>\<open>[[r["scores"][n] for n in nodes] for r in results.values() if "scores" in r]\<close>\<close>

fun collect :: "('a \<Rightarrow> exc + 'b) \<Rightarrow> 'a list \<Rightarrow> exc + 'b list" where
  "collect g [] = Inr []"
| "collect g (x # xs) = bind_exc (g x) (\<lambda>y. bind_exc (collect g xs) (\<lambda>ys. Inr (y # ys)))"

definition score_lists :: "string list \<Rightarrow> (string \<times> compare_entry) list \<Rightarrow> exc + npfloat list list" where
  "score_lists names res =
     collect (\<lambda>r. collect (dict_get (entry_scores r)) names)
       (filter has_scores (map snd res))"

text \<open>The pairs \<open>i < j\<close> of the double loop, in its order.\<close>

definition index_pairs :: "nat \<Rightarrow> (nat \<times> nat) list" where
  "index_pairs k = concat (map (\<lambda>i. map (\<lambda>j. (i, j)) [i + 1..<k]) [0..<k])"

definition model_agreement ::
  "'w libs \<Rightarrow> string list \<Rightarrow> (string \<times> compare_entry) list \<Rightarrow> exc + (string \<times> compare_entry) list" where
  "model_agreement env names res =
     (if length res \<ge> 2 then
        bind_exc (score_lists names res) (\<lambda>sl.
          if length sl \<ge> 2 then
            (let model_names = map fst (filter (\<lambda>(k, r). has_scores r) res) in
             bind_exc (collect (\<lambda>(i, j).
                         bind_exc (spearmanr env (sl ! i) (sl ! j)) (\<lambda>corr.
                           Inr (model_names ! i, model_names ! j, corr)))
                       (index_pairs (length sl))) (\<lambda>correlations.
               Inr (dict_set res ''model_agreement'' (ModelAgreement correlations))))
          else Inr res)
      else Inr res)"

definition gcn_compare :: "'w libs \<Rightarrow> MultiModelRequest \<Rightarrow> exc + CompareResponse" where
  "gcn_compare env req = try_500 (
     bind_exc (np_array (MultiModelRequest.features req)) (\<lambda>X.
     bind_exc (unpack2 (shape X)) (\<lambda>(n, f).
       if n = 0 then Inl (HTTPException 400 NoNodesProvided)
       else
         bind_exc (build_graph env (compare_graph_source req) (as_matrix X) n
                     (Fin (3 / 10)) 0) (\<lambda>A.
         bind_exc (normalize_adj A) (\<lambda>A_norm.
         bind_exc (model_agreement env (MultiModelRequest.nodes req)
                     (foldl (compare_step env req n f (as_matrix X) A_norm) []
                        (model_types req))) (\<lambda>res.
           Inr \<lparr>results = res, n_nodes = n, n_features = f\<rparr>))))))"

subsection \<open>POST /gcn/cluster\<close>

text \<open>\<open>A[i, j]\<close> with non-negative indices on a two-dimensional array.\<close>

definition get_item :: "matrix \<Rightarrow> nat \<Rightarrow> nat \<Rightarrow> exc + npfloat" where
  "get_item A i j =
     (if i < length A \<and> j < ncols A then Inr (A ! i ! j)
      else Inl (IndexError ''index is out of bounds''))"

record cluster_point =
  node :: string
  x_coord :: npfloat
  y_coord :: npfloat

record cluster_center =
  cluster :: nat
  center :: "npfloat list"
  size_of :: nat

record ClusterResponse =
  clusters :: "(int \<times> cluster_point list) list"
  cluster_centers :: "cluster_center list"
  node_labels :: "(string \<times> int) list"
  pca_explained_variance :: "npfloat list"
  n_clusters :: int

text \<open>One round of the loop over \<open>enumerate(labels)\<close>.\<close>

definition cluster_step ::
  "string list \<Rightarrow> matrix \<Rightarrow> (int \<times> cluster_point list) list \<Rightarrow> nat \<times> int \<Rightarrow>
   exc + (int \<times> cluster_point list) list" where
  "cluster_step names coords cl il =
     (case il of (i, label) \<Rightarrow>
        (let cl' = (if label \<in> set (map fst cl) then cl else dict_set cl label []) in
         bind_exc (list_get names i) (\<lambda>nd.
         bind_exc (get_item coords i 0) (\<lambda>cx.
         bind_exc (get_item coords i 1) (\<lambda>cy.
           Inr (dict_set cl' label
                  (get_default [] (map_of cl' label) @ [\<lparr>node = nd, x_coord = cx, y_coord = cy\<rparr>])))))))"

definition center_step ::
  "matrix \<Rightarrow> (int \<times> cluster_point list) list \<Rightarrow> cluster_center list \<Rightarrow> nat \<Rightarrow>
   exc + cluster_center list" where
  "center_step centers cl acc i =
     bind_exc (list_get centers i) (\<lambda>c.
       Inr (acc @ [\<lparr>cluster = i, center = c,
                     size_of = length (get_default [] (map_of cl (int i)))\<rparr>]))"

definition gcn_cluster :: "'w libs \<Rightarrow> StockClusterRequest \<Rightarrow> exc + ClusterResponse" where
  "gcn_cluster env req = try_500 (
     bind_exc (np_array (StockClusterRequest.features req)) (\<lambda>X.
     bind_exc (unpack2 (shape X)) (\<lambda>(n, f).
       if int n < StockClusterRequest.n_clusters req
       then Inl (HTTPException 400 (NodesFewerThanClusters n (StockClusterRequest.n_clusters req)))
       else
         bind_exc (kmeans env (as_matrix X) (StockClusterRequest.n_clusters req)) (\<lambda>(labels, centers).
         bind_exc (if f > 2 then pca env (as_matrix X)
                   else Inr (as_matrix X, [Fin 1, Fin 0])) (\<lambda>(coords, explained_var).
         bind_exc (for_each (cluster_step (StockClusterRequest.nodes req) coords) []
                     (enumerate 0 labels)) (\<lambda>cl.
         bind_exc (for_each (center_step centers cl) []
                     [0..<nat (StockClusterRequest.n_clusters req)]) (\<lambda>cc.
         bind_exc (dict_of_nodes (StockClusterRequest.nodes req) labels n) (\<lambda>nl.
           Inr \<lparr>clusters = cl, cluster_centers = cc, node_labels = nl,
                pca_explained_variance = explained_var,
                n_clusters = StockClusterRequest.n_clusters req\<rparr>))))))))"

subsection \<open>POST /gcn/importance\<close>

record ImportanceResponse =
  feature_importance_list :: "(string \<times> npfloat) list"
  top_features :: "(string \<times> npfloat) list"
  method_used :: string

definition feature_importance :: "'w libs \<Rightarrow> FeatureImportanceRequest \<Rightarrow> exc + ImportanceResponse" where
  "feature_importance env req = try_500 (
     bind_exc (np_array (FeatureImportanceRequest.features req)) (\<lambda>X.
     bind_exc (unpack2 (shape X)) (\<lambda>(n, f).
       if length (feature_names req) \<noteq> f
       then Inl (HTTPException 400 (FeatureNamesMismatch (length (feature_names req)) f))
       else
         bind_exc (build_adj_matrix n (FeatureImportanceRequest.adjacency req)) (\<lambda>A.
         bind_exc (normalize_adj A) (\<lambda>A_norm.
         bind_exc (instantiate env SimpleGCN f
                     [(''hidden'', PInt 32), (''out_feats'', PInt 1)]) (\<lambda>(model, w).
         bind_exc (train_model env model w (as_matrix X) A_norm 100 (Fin (1 / 100))) (\<lambda>(w', _).
         bind_exc (input_gradients env model w' (as_matrix X) A_norm) (\<lambda>gradients.
         bind_exc (pairs_of_nodes (feature_names req)
                     (map (\<lambda>g. f_div g (np_sum gradients)) gradients) f) (\<lambda>fi.
           Inr \<lparr>feature_importance_list = sorted_desc snd fi,
                top_features = take 5 (sorted_desc snd fi),
                method_used = ''gradient_based''\<rparr>)))))))))"

section \<open>Endpoints\<close>

text \<open>
  The framework validates the body against the request model and answers 422 without
  calling the handler when a constraint fails.
\<close>

definition endpoint :: "('r \<Rightarrow> validation_error list) \<Rightarrow> ('r \<Rightarrow> exc + 'a) \<Rightarrow> 'r \<Rightarrow> exc + 'a" where
  "endpoint validate handler body =
     (case validate body of
        [] \<Rightarrow> handler body
      | e # es \<Rightarrow> Inl (HTTPException 422 (ValidationErrors (e # es))))"

definition post_gcn_predict :: "'w libs \<Rightarrow> GCNRequest \<Rightarrow> exc + GCNResponse" where
  "post_gcn_predict env = endpoint validate_GCNRequest (gcn_predict env)"

definition post_gcn_advanced :: "'w libs \<Rightarrow> AdvancedGCNRequest \<Rightarrow> exc + AdvancedResponse" where
  "post_gcn_advanced env = endpoint validate_AdvancedGCNRequest (gcn_advanced env)"

definition post_gcn_compare :: "'w libs \<Rightarrow> MultiModelRequest \<Rightarrow> exc + CompareResponse" where
  "post_gcn_compare env = endpoint validate_MultiModelRequest (gcn_compare env)"

definition post_gcn_cluster :: "'w libs \<Rightarrow> StockClusterRequest \<Rightarrow> exc + ClusterResponse" where
  "post_gcn_cluster env = endpoint validate_StockClusterRequest (gcn_cluster env)"

definition post_gcn_importance :: "'w libs \<Rightarrow> FeatureImportanceRequest \<Rightarrow> exc + ImportanceResponse" where
  "post_gcn_importance env = endpoint validate_FeatureImportanceRequest (feature_importance env)"

section \<open>A concrete instance of the libraries\<close>

text \<open>
  Used to evaluate the handlers on examples. Every model scores a node by the sum of its
  features multiplied by its position, training leaves the model as it is, and the graph and
  clustering routines raise.
\<close>

definition toy_libs :: "unit libs" where
  "toy_libs = \<lparr>
     nn_init = (\<lambda>m. Inr ()),
     net_forward = (\<lambda>training m w x adj.
        Inr (map (\<lambda>(i, r). f_mul (Fin (real i)) (np_sum r)) (enumerate 1 x))),
     adam = (\<lambda>w lr. w),
     optim_step = (\<lambda>m w x adj out. Inr ((), Fin 0)),
     input_gradients = (\<lambda>m w x adj. Inl (LibraryError ''autograd'')),
     corrcoef = (\<lambda>r. Inl (LibraryError ''corrcoef'')),
     kneighbors_graph = (\<lambda>x k. Inl (LibraryError ''kneighbors_graph'')),
     kmeans = (\<lambda>x k. Inl (LibraryError ''KMeans'')),
     pca = (\<lambda>x. Inl (LibraryError ''PCA'')),
     spearmanr = (\<lambda>a b. Inl (LibraryError ''spearmanr''))\<rparr>"

section \<open>Auxiliary notions for the statements\<close>

text \<open>An optional list field that Python treats as false: absent or empty.\<close>

definition falsy :: "'a list option \<Rightarrow> bool" where
  "falsy v = (v = None \<or> v = Some [])"

text \<open>Example requests: an advanced request with the declared defaults, and a comparison.\<close>

definition example_request ::
  "int list list option \<Rightarrow> npfloat list list option \<Rightarrow> bool \<Rightarrow> AdvancedGCNRequest" where
  "example_request adj rets knn =
     \<lparr>AdvancedGCNRequest.nodes = [''A'', ''B''], features = [[Fin 1, Fin 0], [Fin 0, Fin 1]],
      adjacency = adj, returns = rets, model_type = ''simple'', train_epochs = 50,
      hidden_dim = 32, dropout = Fin (2 / 10), learning_rate = Fin (1 / 100),
      correlation_threshold = Fin (3 / 10), use_knn_graph = knn, knn_k = 5\<rparr>"


text \<open>
  The part of one comparison round that runs in the libraries: building the model with its
  default parameters, training it when requested, and the forward pass in evaluation mode.
\<close>

definition library_run ::
  "'w libs \<Rightarrow> string \<Rightarrow> nat \<Rightarrow> matrix \<Rightarrow> matrix \<Rightarrow> int \<Rightarrow> exc + npfloat list" where
  "library_run env mtype f x adj num_epochs =
     bind_exc (create_model env mtype f []) (\<lambda>(model, w).
     bind_exc (train_if_requested env model w x adj num_epochs (Fin (1 / 100))) (\<lambda>(w', _).
       forward env False model w' x adj))"




section \<open>The hybrid model\<close>

text \<open>
  Tensors of the forward pass are two-dimensional, with an explicit shape; a bias is a
  one-dimensional list. The framework's operations raise \<open>RuntimeError\<close> on a shape they
  do not accept.
\<close>

datatype tensor = Tensor (rows: nat) (cols: nat) (entry: "nat \<Rightarrow> nat \<Rightarrow> npfloat")

datatype tensor_out = Vector "npfloat list" | Matrix tensor

definition torch_mm :: "tensor \<Rightarrow> tensor \<Rightarrow> exc + tensor" where
  "torch_mm a b =
     (if cols a = rows b
      then Inr (Tensor (rows a) (cols b)
                  (\<lambda>i j. np_sum (map (\<lambda>k. f_mul (entry a i k) (entry b k j)) [0..<cols a])))
      else Inl (RuntimeError ''mat1 and mat2 shapes cannot be multiplied''))"

text \<open>\<open>output + bias\<close>: the bias is broadcast along the rows.\<close>

definition add_bias :: "tensor \<Rightarrow> npfloat list \<Rightarrow> exc + tensor" where
  "add_bias t b =
     (if length b = cols t \<or> length b = 1
      then Inr (Tensor (rows t) (cols t)
                  (\<lambda>i j. f_add (entry t i j) (b ! (if length b = 1 then 0 else j))))
      else if cols t = 1
      then Inr (Tensor (rows t) (length b) (\<lambda>i j. f_add (entry t i 0) (b ! j)))
      else Inl (RuntimeError ''The size of tensor a must match the size of tensor b''))"

definition map_tensor :: "(npfloat \<Rightarrow> npfloat) \<Rightarrow> tensor \<Rightarrow> tensor" where
  "map_tensor g t = Tensor (rows t) (cols t) (\<lambda>i j. g (entry t i j))"

fun relu_scalar :: "npfloat \<Rightarrow> npfloat" where
  "relu_scalar NaN = NaN"
| "relu_scalar v = (if f_less v (Fin 0) then Fin 0 else v)"

definition F_relu :: "tensor \<Rightarrow> tensor" where
  "F_relu t = map_tensor relu_scalar t"

text \<open>
  Dropout with probability \<open>p\<close>. In training mode the kept entries are scaled by
  \<open>1 / (1 - p)\<close> and the others are multiplied by zero; \<open>keep\<close> is the random draw. In
  evaluation mode the tensor is returned as it is.
\<close>

definition F_dropout :: "tensor \<Rightarrow> npfloat \<Rightarrow> bool \<Rightarrow> (nat \<Rightarrow> nat \<Rightarrow> bool) \<Rightarrow> exc + tensor" where
  "F_dropout t p training_mode keep =
     (if \<not> (f_le (Fin 0) p \<and> f_le p (Fin 1))
      then Inl (ValueError ''dropout probability has to be between 0 and 1'')
      else if training_mode
      then Inr (Tensor (rows t) (cols t)
                  (\<lambda>i j. if keep i j \<and> p \<noteq> Fin 1
                         then f_div (entry t i j) (f_sub (Fin 1) p)
                         else f_mul (entry t i j) (Fin 0)))
      else Inr t)"

record GraphConvLayer =
  weight :: tensor
  bias :: "npfloat list option"

definition GraphConvLayer_forward :: "GraphConvLayer \<Rightarrow> tensor \<Rightarrow> tensor \<Rightarrow> exc + tensor" where
  "GraphConvLayer_forward l x adj =
     bind_exc (torch_mm x (GraphConvLayer.weight l)) (\<lambda>support.
     bind_exc (torch_mm adj support) (\<lambda>output.
       case GraphConvLayer.bias l of
         Some b \<Rightarrow> add_bias output b
       | None \<Rightarrow> Inr output))"

text \<open>\<open>nn.Linear\<close>: the weight has shape (out, in), the result is \<open>x W\<^sup>T + b\<close>.\<close>

record Linear =
  weight :: tensor
  bias :: "npfloat list"

definition Linear_forward :: "Linear \<Rightarrow> tensor \<Rightarrow> exc + tensor" where
  "Linear_forward l x =
     (if cols x = cols (Linear.weight l)
      then add_bias
             (Tensor (rows x) (rows (Linear.weight l))
                (\<lambda>i j. np_sum (map (\<lambda>k. f_mul (entry x i k) (entry (Linear.weight l) j k)) [0..<cols x])))
             (Linear.bias l)
      else Inl (RuntimeError ''mat1 and mat2 shapes cannot be multiplied''))"

text \<open>\<open>torch.cat([a, b], dim=-1)\<close>\<close>

definition torch_cat :: "tensor \<Rightarrow> tensor \<Rightarrow> exc + tensor" where
  "torch_cat a b =
     (if rows a = rows b
      then Inr (Tensor (rows a) (cols a + cols b)
                  (\<lambda>i j. if j < cols a then entry a i j else entry b i (j - cols a)))
      else Inl (RuntimeError ''Sizes of tensors must match except in dimension 1''))"

fun f_exp :: "npfloat \<Rightarrow> npfloat" where
  "f_exp (Fin a) = Fin (exp a)"
| "f_exp PInf = PInf"
| "f_exp NInf = Fin 0"
| "f_exp NaN = NaN"

text \<open>\<open>nn.Softmax(dim=-1)\<close>\<close>

definition softmax :: "tensor \<Rightarrow> tensor" where
  "softmax t = Tensor (rows t) (cols t)
     (\<lambda>i j. f_div (f_exp (entry t i j)) (np_sum (map (\<lambda>k. f_exp (entry t i k)) [0..<cols t])))"

text \<open>\<open>t[:, a:b]\<close>: a slice never raises; it is clipped to the columns that exist.\<close>

definition slice_cols :: "tensor \<Rightarrow> nat \<Rightarrow> nat \<Rightarrow> tensor" where
  "slice_cols t a b = Tensor (rows t) (min b (cols t) - min a (cols t)) (\<lambda>i j. entry t i (j + a))"

text \<open>Elementwise operations on two tensors, with broadcasting.\<close>

definition elementwise :: "(npfloat \<Rightarrow> npfloat \<Rightarrow> npfloat) \<Rightarrow> tensor \<Rightarrow> tensor \<Rightarrow> exc + tensor" where
  "elementwise g a b =
     (case (bdim (rows a) (rows b), bdim (cols a) (cols b)) of
        (Some r, Some c) \<Rightarrow>
          Inr (Tensor r c
                 (\<lambda>i j. g (entry a (if rows a = 1 then 0 else i) (if cols a = 1 then 0 else j))
                          (entry b (if rows b = 1 then 0 else i) (if cols b = 1 then 0 else j))))
      | _ \<Rightarrow> Inl (RuntimeError ''The size of tensor a must match the size of tensor b''))"

text \<open>\<open>t.squeeze(-1)\<close>: the last dimension is removed when its size is 1.\<close>

definition squeeze_last :: "tensor \<Rightarrow> tensor_out" where
  "squeeze_last t = (if cols t = 1 then Vector (map (\<lambda>i. entry t i 0) [0..<rows t]) else Matrix t)"

text \<open>
  A \<open>HybridGCN\<close> instance: the dropout probability, the training flag, and the layers that
  \<open>__init__\<close> creates. \<open>mlp\<close> and \<open>fusion\<close> are \<open>Linear, ReLU, Dropout, Linear\<close>;
  \<open>attention\<close> is \<open>Linear, Softmax\<close>.
\<close>

record HybridGCN_module =
  dropout_p :: npfloat
  training_mode :: bool
  gcn1 :: GraphConvLayer
  gcn2 :: GraphConvLayer
  mlp_0 :: Linear
  mlp_3 :: Linear
  fusion_0 :: Linear
  fusion_3 :: Linear
  attention_0 :: Linear

definition sequential_mlp ::
  "Linear \<Rightarrow> Linear \<Rightarrow> npfloat \<Rightarrow> bool \<Rightarrow> (nat \<Rightarrow> nat \<Rightarrow> bool) \<Rightarrow> tensor \<Rightarrow> exc + tensor" where
  "sequential_mlp l0 l3 p training_flag keep x =
     bind_exc (Linear_forward l0 x) (\<lambda>a.
     bind_exc (F_dropout (F_relu a) p training_flag keep) (\<lambda>d.
       Linear_forward l3 d))"

definition mlp :: "HybridGCN_module \<Rightarrow> (nat \<Rightarrow> nat \<Rightarrow> bool) \<Rightarrow> tensor \<Rightarrow> exc + tensor" where
  "mlp m keep x = sequential_mlp (mlp_0 m) (mlp_3 m) (dropout_p m) (training_mode m) keep x"

definition fusion :: "HybridGCN_module \<Rightarrow> (nat \<Rightarrow> nat \<Rightarrow> bool) \<Rightarrow> tensor \<Rightarrow> exc + tensor" where
  "fusion m keep x = sequential_mlp (fusion_0 m) (fusion_3 m) (dropout_p m) (training_mode m) keep x"

definition attention :: "HybridGCN_module \<Rightarrow> tensor \<Rightarrow> exc + tensor" where
  "attention m x = bind_exc (Linear_forward (attention_0 m) x) (\<lambda>a. Inr (softmax a))"

text \<open>
  \<open>HybridGCN.forward\<close>. \<open>keeps k\<close> is the random draw of the \<open>k\<close>-th dropout call, in
  the order the calls are made.
\<close>

definition HybridGCN_forward ::
  "HybridGCN_module \<Rightarrow> (nat \<Rightarrow> nat \<Rightarrow> nat \<Rightarrow> bool) \<Rightarrow> tensor \<Rightarrow> tensor \<Rightarrow> exc + tensor_out" where
  "HybridGCN_forward m keeps x adj =
     bind_exc (GraphConvLayer_forward (gcn1 m) x adj) (\<lambda>a.
     bind_exc (F_dropout (F_relu a) (dropout_p m) (training_mode m) (keeps 0)) (\<lambda>h.
     bind_exc (GraphConvLayer_forward (gcn2 m) h adj) (\<lambda>h_gcn.
     bind_exc (mlp m (keeps 1) x) (\<lambda>h_mlp.
     bind_exc (torch_cat h_gcn h_mlp) (\<lambda>combined.
     bind_exc (attention m combined) (\<lambda>weights.
     bind_exc (elementwise f_mul (slice_cols weights 0 1) h_gcn) (\<lambda>p0.
     bind_exc (elementwise f_mul (slice_cols weights 1 2) h_mlp) (\<lambda>p1.
     bind_exc (elementwise f_add p0 p1) (\<lambda>h_fused.
     bind_exc (torch_cat h_gcn h_mlp) (\<lambda>combined'.
     bind_exc (fusion m (keeps 2) combined') (\<lambda>out.
       Inr (squeeze_last out))))))))))))"

text \<open>The two branches, and the fusion MLP applied to their concatenation.\<close>

definition gcn_branch :: "HybridGCN_module \<Rightarrow> (nat \<Rightarrow> nat \<Rightarrow> bool) \<Rightarrow> tensor \<Rightarrow> tensor \<Rightarrow> exc + tensor" where
  "gcn_branch m keep x adj =
     bind_exc (GraphConvLayer_forward (gcn1 m) x adj) (\<lambda>a.
     bind_exc (F_dropout (F_relu a) (dropout_p m) (training_mode m) keep) (\<lambda>h.
       GraphConvLayer_forward (gcn2 m) h adj))"

definition fusion_of_branches ::
  "HybridGCN_module \<Rightarrow> (nat \<Rightarrow> nat \<Rightarrow> nat \<Rightarrow> bool) \<Rightarrow> tensor \<Rightarrow> tensor \<Rightarrow> exc + tensor_out" where
  "fusion_of_branches m keeps x adj =
     bind_exc (gcn_branch m (keeps 0) x adj) (\<lambda>h_gcn.
     bind_exc (mlp m (keeps 1) x) (\<lambda>h_mlp.
     bind_exc (torch_cat h_gcn h_mlp) (\<lambda>combined.
     bind_exc (fusion m (keeps 2) combined) (\<lambda>out.
       Inr (squeeze_last out)))))"

text \<open>The shapes that \<open>__init__\<close> gives the layers, for \<open>in_feats\<close>, \<open>gcn_hidden\<close>, \<open>out_feats\<close>.\<close>

definition conv_shape :: "GraphConvLayer \<Rightarrow> nat \<Rightarrow> nat \<Rightarrow> bool" where
  "conv_shape l i k =
     (rows (GraphConvLayer.weight l) = i \<and> cols (GraphConvLayer.weight l) = k \<and>
      (case GraphConvLayer.bias l of Some b \<Rightarrow> length b = k | None \<Rightarrow> False))"

definition linear_shape :: "Linear \<Rightarrow> nat \<Rightarrow> nat \<Rightarrow> bool" where
  "linear_shape l i k =
     (rows (Linear.weight l) = k \<and> cols (Linear.weight l) = i \<and> length (Linear.bias l) = k)"

definition hybrid_init :: "HybridGCN_module \<Rightarrow> nat \<Rightarrow> nat \<Rightarrow> nat \<Rightarrow> bool" where
  "hybrid_init m f g k =
     (conv_shape (gcn1 m) f g \<and> conv_shape (gcn2 m) g g \<and>
      linear_shape (mlp_0 m) f g \<and> linear_shape (mlp_3 m) g g \<and>
      linear_shape (fusion_0 m) (g * 2) g \<and> linear_shape (fusion_3 m) g k \<and>
      linear_shape (attention_0 m) (g * 2) 2)"

text \<open>A small instance of the hybrid model, in evaluation mode, with constant weights.\<close>

definition const_tensor :: "nat \<Rightarrow> nat \<Rightarrow> real \<Rightarrow> tensor" where
  "const_tensor r c v = Tensor r c (\<lambda>i j. Fin v)"

definition hybrid_example :: HybridGCN_module where
  "hybrid_example =
     \<lparr>dropout_p = Fin (2 / 10), training_mode = False,
      gcn1 = \<lparr>GraphConvLayer.weight = const_tensor 1 1 1, bias = Some [Fin 0]\<rparr>,
      gcn2 = \<lparr>GraphConvLayer.weight = const_tensor 1 1 1, bias = Some [Fin 0]\<rparr>,
      mlp_0 = \<lparr>Linear.weight = const_tensor 1 1 1, bias = [Fin 0]\<rparr>,
      mlp_3 = \<lparr>Linear.weight = const_tensor 1 1 1, bias = [Fin 0]\<rparr>,
      fusion_0 = \<lparr>Linear.weight = const_tensor 1 2 1, bias = [Fin 0]\<rparr>,
      fusion_3 = \<lparr>Linear.weight = const_tensor 1 1 1, bias = [Fin 0]\<rparr>,
      attention_0 = \<lparr>Linear.weight = const_tensor 2 2 1, bias = [Fin 0, Fin 0]\<rparr>\<rparr>"

section \<open>Verified properties\<close>

subsection \<open>build_adj_matrix\<close>

lemma ncols_square: "is_square n A \<Longrightarrow> ncols A = n"
  by (cases A) (auto simp: is_square_def ncols_def)

lemma set_item_in_range:
  assumes "is_square n A" "i < n" "j < n"
  shows "set_item A (int i) (int j) v = Inr (A[i := (A ! i)[j := v]])"
  using assms ncols_square[OF assms(1)] by (simp add: set_item_def Let_def is_square_def)

lemma update_square:
  "is_square n A \<Longrightarrow> is_square n (A[i := (A ! i)[j := v]])"
  by (cases "i < length A") (auto simp: is_square_def nth_list_update)

lemma update_nth:
  "is_square n A \<Longrightarrow> i < n \<Longrightarrow> j < n \<Longrightarrow> a < n \<Longrightarrow> b < n \<Longrightarrow>
   A[i := (A ! i)[j := v]] ! a ! b = (if a = i \<and> b = j then v else A ! a ! b)"
  by (auto simp: is_square_def nth_list_update)

lemma zeros_inv: "adj_inv n (zeros n n)"
  by (simp add: adj_inv_def is_square_def zeros_def)

lemma set_pair_inv:
  assumes inv: "adj_inv n A" and i: "i < n" and j: "j < n"
  shows "\<exists>C. bind_exc (set_item A (int i) (int j) (Fin 1)) (\<lambda>A'. set_item A' (int j) (int i) (Fin 1)) = Inr C
     \<and> adj_inv n C"
proof -
  let ?B = "A[i := (A ! i)[j := Fin 1]]"
  let ?C = "?B[j := (?B ! j)[i := Fin 1]]"
  have sqA: "is_square n A" using inv by (simp add: adj_inv_def)
  have sqB: "is_square n ?B" using sqA by (rule update_square)
  have sqC: "is_square n ?C" using sqB by (rule update_square)
  have run: "bind_exc (set_item A (int i) (int j) (Fin 1)) (\<lambda>A'. set_item A' (int j) (int i) (Fin 1)) = Inr ?C"
    by (simp only: set_item_in_range[OF sqA i j] set_item_in_range[OF sqB j i] bind_exc_def sum.case)
  have C: "?C ! a ! b = (if (a = j \<and> b = i) \<or> (a = i \<and> b = j) then Fin 1 else A ! a ! b)"
    if "a < n" "b < n" for a b
  proof -
    have 1: "?C ! a ! b = (if a = j \<and> b = i then Fin 1 else ?B ! a ! b)"
      by (rule update_nth[OF sqB j i that])
    have 2: "?B ! a ! b = (if a = i \<and> b = j then Fin 1 else A ! a ! b)"
      by (rule update_nth[OF sqA i j that])
    show ?thesis by (simp only: 1 2 split: if_splits) blast
  qed
  have symA: "A ! a ! b = A ! b ! a" if "a < n" "b < n" for a b
    using inv that by (simp add: adj_inv_def)
  have binA: "A ! a ! b = Fin 0 \<or> A ! a ! b = Fin 1" if "a < n" "b < n" for a b
    using inv that by (simp add: adj_inv_def)
  have "?C ! a ! b = ?C ! b ! a" if "a < n" "b < n" for a b
    using C[OF that] C[OF that(2) that(1)] symA[OF that] by auto
  moreover have "?C ! a ! b = Fin 0 \<or> ?C ! a ! b = Fin 1" if "a < n" "b < n" for a b
    using C[OF that] binA[OF that] by auto
  ultimately have "adj_inv n ?C" using sqC unfolding adj_inv_def by blast
  with run show ?thesis by blast
qed

lemma add_edge_inv:
  assumes "adj_inv n A"
  shows "\<exists>C. add_edge n A e = Inr C \<and> adj_inv n C"
proof (cases "in_range n e")
  case True
  then have i: "nat (e ! 0) < n" and j: "nat (e ! 1) < n"
    and ii: "int (nat (e ! 0)) = e ! 0" and jj: "int (nat (e ! 1)) = e ! 1"
    by (auto simp: in_range_def)
  from set_pair_inv[OF assms i j] True show ?thesis
    by (simp add: add_edge_def Let_def in_range_def ii jj)
next
  case False
  then have "add_edge n A e = Inr A" by (auto simp: add_edge_def in_range_def Let_def)
  with assms show ?thesis by simp
qed

lemma add_edge_skip: "\<not> in_range n e \<Longrightarrow> add_edge n A e = Inr A"
  by (auto simp: add_edge_def in_range_def Let_def)

lemma for_each_add_edge_inv:
  "adj_inv n A \<Longrightarrow> \<exists>C. for_each (add_edge n) A edges = Inr C \<and> adj_inv n C"
proof (induction edges arbitrary: A)
  case Nil
  then show ?case by simp
next
  case (Cons e edges)
  from add_edge_inv[OF Cons.prems, of e] obtain B where
    B: "add_edge n A e = Inr B" "adj_inv n B" by blast
  from Cons.IH[OF B(2)] B(1) show ?case by (simp add: bind_exc_def)
qed

lemma for_each_filter:
  "for_each (add_edge n) A edges = for_each (add_edge n) A (filter (in_range n) edges)"
  by (induction edges arbitrary: A) (auto simp: add_edge_skip bind_exc_def split: sum.splits)

lemma self_loop_inv:
  assumes inv: "adj_inv n A" and i: "i < n"
  shows "\<exists>C. set_item A (int i) (int i) (Fin 1) = Inr C \<and> adj_inv n C
     \<and> C ! i ! i = Fin 1 \<and> (\<forall>k<n. A ! k ! k = Fin 1 \<longrightarrow> C ! k ! k = Fin 1)"
proof -
  let ?C = "A[i := (A ! i)[i := Fin 1]]"
  have sqA: "is_square n A" using inv by (simp add: adj_inv_def)
  have sqC: "is_square n ?C" using sqA by (rule update_square)
  have C: "?C ! a ! b = (if a = i \<and> b = i then Fin 1 else A ! a ! b)"
    if "a < n" "b < n" for a b
    by (rule update_nth[OF sqA i i that])
  have symA: "A ! a ! b = A ! b ! a" if "a < n" "b < n" for a b
    using inv that by (simp add: adj_inv_def)
  have binA: "A ! a ! b = Fin 0 \<or> A ! a ! b = Fin 1" if "a < n" "b < n" for a b
    using inv that by (simp add: adj_inv_def)
  have "?C ! a ! b = ?C ! b ! a" if "a < n" "b < n" for a b
    using C[OF that] C[OF that(2) that(1)] symA[OF that] by auto
  moreover have "?C ! a ! b = Fin 0 \<or> ?C ! a ! b = Fin 1" if "a < n" "b < n" for a b
    using C[OF that] binA[OF that] by auto
  ultimately have "adj_inv n ?C" using sqC unfolding adj_inv_def by blast
  moreover have "?C ! i ! i = Fin 1" using C[OF i i] by simp
  moreover have "\<forall>k<n. A ! k ! k = Fin 1 \<longrightarrow> ?C ! k ! k = Fin 1" using C by simp
  ultimately show ?thesis using set_item_in_range[OF sqA i i] by simp
qed

lemma self_loops_from:
  "adj_inv n A \<Longrightarrow> set ks \<subseteq> {..<n} \<Longrightarrow>
   \<exists>C. for_each (\<lambda>A i. set_item A (int i) (int i) (Fin 1)) A ks = Inr C \<and> adj_inv n C \<and>
       (\<forall>k<n. k \<in> set ks \<or> A ! k ! k = Fin 1 \<longrightarrow> C ! k ! k = Fin 1)"
proof (induction ks arbitrary: A)
  case Nil
  then show ?case by simp
next
  case (Cons k ks)
  then have k: "k < n" and ks: "set ks \<subseteq> {..<n}" by auto
  from self_loop_inv[OF Cons.prems(1) k] obtain B where
    B: "set_item A (int k) (int k) (Fin 1) = Inr B" "adj_inv n B" "B ! k ! k = Fin 1"
       "\<forall>i<n. A ! i ! i = Fin 1 \<longrightarrow> B ! i ! i = Fin 1" by blast
  from Cons.IH[OF B(2) ks] obtain C where
    C: "for_each (\<lambda>A i. set_item A (int i) (int i) (Fin 1)) B ks = Inr C" "adj_inv n C"
       "\<forall>i<n. i \<in> set ks \<or> B ! i ! i = Fin 1 \<longrightarrow> C ! i ! i = Fin 1" by blast
  have "\<forall>i<n. i \<in> set (k # ks) \<or> A ! i ! i = Fin 1 \<longrightarrow> C ! i ! i = Fin 1"
    using B(3,4) C(3) by auto
  with B(1) C(1,2) show ?case by (simp add: bind_exc_def)
qed

lemma build_adj_matrix_inv:
  "\<exists>A. build_adj_matrix n edges = Inr A \<and> adj_inv n A \<and> (\<forall>i<n. A ! i ! i = Fin 1)"
proof -
  from for_each_add_edge_inv[OF zeros_inv, of n edges] obtain B where
    B: "for_each (add_edge n) (zeros n n) edges = Inr B" "adj_inv n B" by blast
  have "set [0..<n] \<subseteq> {..<n}" by auto
  from self_loops_from[OF B(2) this] obtain C where
    C: "add_self_loops n B = Inr C" "adj_inv n C" "\<forall>i<n. C ! i ! i = Fin 1"
    unfolding add_self_loops_def by auto
  with B(1) show ?thesis by (simp add: build_adj_matrix_def bind_exc_def)
qed

text \<open>
  Claim C5. For every node count \<open>n\<close> and every edge list (empty, with entries of fewer
  than two elements, with indices out of range), \<open>build_adj_matrix\<close> returns without
  raising an \<open>n\<close> by \<open>n\<close> matrix that is symmetric, has 1.0 on the diagonal and
  only 0.0 and 1.0 as entries; the entries that fail the range test do not change the result.
\<close>

theorem build_adj_matrix_symmetric_self_loops:
  "\<exists>A. build_adj_matrix n edges = Inr A \<and>
       length A = n \<and> (\<forall>i<n. length (A ! i) = n) \<and>
       (\<forall>i<n. \<forall>j<n. A ! i ! j = A ! j ! i) \<and>
       (\<forall>i<n. A ! i ! i = Fin 1) \<and>
       (\<forall>i<n. \<forall>j<n. A ! i ! j = Fin 0 \<or> A ! i ! j = Fin 1) \<and>
       build_adj_matrix n (filter (in_range n) edges) = Inr A"
proof -
  from build_adj_matrix_inv[of n edges] obtain A where
    A: "build_adj_matrix n edges = Inr A" "adj_inv n A" "\<forall>i<n. A ! i ! i = Fin 1" by blast
  have "build_adj_matrix n (filter (in_range n) edges) = build_adj_matrix n edges"
    using for_each_filter[of n "zeros n n" edges] by (simp add: build_adj_matrix_def)
  with A show ?thesis by (auto simp: adj_inv_def is_square_def)
qed

theorem build_adj_matrix_symmetric_self_loops_witness:
  "build_adj_matrix 3 [[0, 1], [1, 2], [7, 0], [2], [], [- 1, 2]] =
     Inr [[Fin 1, Fin 1, Fin 0], [Fin 1, Fin 1, Fin 1], [Fin 0, Fin 1, Fin 1]] \<and>
   build_adj_matrix 3 (filter (in_range 3) [[0, 1], [1, 2], [7, 0], [2], [], [- 1, 2]]) =
     Inr [[Fin 1, Fin 1, Fin 0], [Fin 1, Fin 1, Fin 1], [Fin 0, Fin 1, Fin 1]]"
  using build_adj_matrix_symmetric_self_loops[of 3 "[[0, 1], [1, 2], [7, 0], [2], [], [- 1, 2]]"]
  by (simp add: build_adj_matrix_def add_self_loops_def add_edge_def zeros_def set_item_def Let_def upt_rec numeral_nat bind_exc_def ncols_def in_range_def)

subsection \<open>Handlers: error paths\<close>

lemma bind_exc_Inr_iff: "bind_exc r k = Inr v \<longleftrightarrow> (\<exists>a. r = Inr a \<and> k a = Inr v)"
  by (cases r) (simp_all add: bind_exc_def)

lemma try_500_Inr_iff: "try_500 r = Inr v \<longleftrightarrow> r = Inr v"
  by (cases r) (simp_all add: try_500_def)

lemma try_500_cases: "(\<exists>v. try_500 r = Inr v) \<or> (\<exists>d. try_500 r = Inl (HTTPException 500 d))"
  by (cases r) (simp_all add: try_500_def)

lemma try_500_status: "status_code (try_500 r) = 200 \<or> status_code (try_500 r) = 500"
  by (cases r) (simp_all add: try_500_def)

text \<open>
  Claim C10. A \<open>/gcn/predict\<close> request whose features list is empty is answered with
  HTTP 500 and not with the empty-scores response: the array built from the empty list is
  one-dimensional, unpacking its shape into two values raises before the \<open>n == 0\<close> test,
  and the handler's \<open>except\<close> clause turns the exception into a 500.
\<close>

theorem predict_empty_features_is_500:
  assumes "GCNRequest.features req = []"
  shows "post_gcn_predict env req =
           Inl (HTTPException 500 (StrOf (ValueError ''not enough values to unpack (expected 2)'')))
         \<and> status_code (post_gcn_predict env req) = 500
         \<and> post_gcn_predict env req \<noteq> Inr \<lparr>GCNResponse.scores = [], info = NoNodes\<rparr>"
  using assms
  by (simp add: post_gcn_predict_def endpoint_def validate_GCNRequest_def gcn_predict_def
      try_500_def bind_exc_def)

theorem predict_empty_features_is_500_witness:
  "GCNRequest.features \<lparr>GCNRequest.nodes = [], features = [], adjacency = [], train_epochs = 0\<rparr> = []
   \<and> status_code (post_gcn_predict toy_libs
         \<lparr>GCNRequest.nodes = [], features = [], adjacency = [], train_epochs = 0\<rparr>) = 500"
  using predict_empty_features_is_500[of
      "\<lparr>GCNRequest.nodes = [], features = [], adjacency = [], train_epochs = 0\<rparr>" toy_libs]
  by simp

text \<open>The empty-scores branch is reached by no request at all.\<close>

lemma np_array_shape: "np_array xs = Inr X \<Longrightarrow> unpack2 (shape X) = Inr (n, f) \<Longrightarrow> n \<noteq> 0"
  by (cases xs) (auto split: if_splits)

lemma predict_never_no_nodes:
  "gcn_predict env req \<noteq> Inr \<lparr>GCNResponse.scores = [], info = NoNodes\<rparr>"
proof
  assume a: "gcn_predict env req = Inr \<lparr>GCNResponse.scores = [], info = NoNodes\<rparr>"
  show False
  proof (cases "np_array (GCNRequest.features req)")
    case (Inl e)
    with a show False by (simp add: gcn_predict_def try_500_def bind_exc_def)
  next
    case (Inr X)
    show False
    proof (cases "unpack2 (shape X)")
      case (Inl e)
      with a Inr show False by (simp add: gcn_predict_def try_500_def bind_exc_def)
    next
      case r: (Inr nf)
      obtain n f where nf: "nf = (n, f)" by (cases nf)
      have "n \<noteq> 0" using np_array_shape[OF Inr] r nf by simp
      with a Inr r nf show False
        by (auto simp: gcn_predict_def try_500_def bind_exc_def split: sum.splits prod.splits)
    qed
  qed
qed

text \<open>
  Claim C2, on the code. The claim asks for a client error (4xx) when \<open>n_clusters\<close> exceeds
  the node count and when the number of feature names differs from the feature count. The
  handlers raise the 400 inside their own \<open>try\<close> block, whose \<open>except Exception\<close> clause
  catches it: the response is a 500 that wraps the 400 and its counts. Evaluated on one node
  with two clusters, and on two features with one name.
\<close>

theorem cluster_and_importance_rejections_are_500:
  "post_gcn_cluster env \<lparr>StockClusterRequest.nodes = [''A''], features = [[Fin 1]], n_clusters = 2\<rparr> =
     Inl (HTTPException 500 (StrOf (HTTPException 400 (NodesFewerThanClusters 1 2))))
   \<and> status_code (post_gcn_cluster env
         \<lparr>StockClusterRequest.nodes = [''A''], features = [[Fin 1]], n_clusters = 2\<rparr>) = 500
   \<and> post_gcn_importance env
         \<lparr>FeatureImportanceRequest.nodes = [''A''], features = [[Fin 1, Fin 2]],
          feature_names = [''f1''], adjacency = []\<rparr> =
     Inl (HTTPException 500 (StrOf (HTTPException 400 (FeatureNamesMismatch 1 2))))
   \<and> status_code (post_gcn_importance env
         \<lparr>FeatureImportanceRequest.nodes = [''A''], features = [[Fin 1, Fin 2]],
          feature_names = [''f1''], adjacency = []\<rparr>) = 500"
  by (simp add: post_gcn_cluster_def post_gcn_importance_def endpoint_def
      validate_StockClusterRequest_def validate_FeatureImportanceRequest_def field_int_def
      gcn_cluster_def feature_importance_def try_500_def bind_exc_def)

text \<open>The same for every request that reaches the two tests.\<close>

lemma cluster_too_many_clusters:
  assumes "np_array (StockClusterRequest.features req) = Inr X"
    and "unpack2 (shape X) = Inr (n, f)"
    and "int n < StockClusterRequest.n_clusters req"
  shows "gcn_cluster env req =
     Inl (HTTPException 500 (StrOf (HTTPException 400
            (NodesFewerThanClusters n (StockClusterRequest.n_clusters req)))))"
  using assms by (simp add: gcn_cluster_def try_500_def bind_exc_def)

lemma importance_name_mismatch:
  assumes "np_array (FeatureImportanceRequest.features req) = Inr X"
    and "unpack2 (shape X) = Inr (n, f)"
    and "length (feature_names req) \<noteq> f"
  shows "feature_importance env req =
     Inl (HTTPException 500 (StrOf (HTTPException 400
            (FeatureNamesMismatch (length (feature_names req)) f))))"
  using assms by (simp add: feature_importance_def try_500_def bind_exc_def)

text \<open>
  Claim C3, on the code. The claim asks for \<open>train_epochs\<close> to be bounded to 0..500 on every
  endpoint that accepts it. \<open>GCNRequest\<close> and \<open>MultiModelRequest\<close> declare it without a
  bound: a body with \<open>train_epochs = 1000000\<close> passes validation on \<open>/gcn/predict\<close> and on
  \<open>/gcn/compare\<close> and reaches the handler, so the answer is never the 422 of a rejected body.
\<close>

theorem train_epochs_unbounded_on_predict_and_compare:
  "validate_GCNRequest
     \<lparr>GCNRequest.nodes = [''A''], features = [[Fin 1]], adjacency = [], train_epochs = 1000000\<rparr> = []
   \<and> post_gcn_predict env
       \<lparr>GCNRequest.nodes = [''A''], features = [[Fin 1]], adjacency = [], train_epochs = 1000000\<rparr> =
     gcn_predict env
       \<lparr>GCNRequest.nodes = [''A''], features = [[Fin 1]], adjacency = [], train_epochs = 1000000\<rparr>
   \<and> status_code (post_gcn_predict env
       \<lparr>GCNRequest.nodes = [''A''], features = [[Fin 1]], adjacency = [], train_epochs = 1000000\<rparr>)
       \<noteq> 422
   \<and> post_gcn_compare env
       \<lparr>MultiModelRequest.nodes = [''A''], features = [[Fin 1]], adjacency = None,
        model_types = [''simple''], train_epochs = 1000000, returns = None\<rparr> =
     gcn_compare env
       \<lparr>MultiModelRequest.nodes = [''A''], features = [[Fin 1]], adjacency = None,
        model_types = [''simple''], train_epochs = 1000000, returns = None\<rparr>"
proof -
  have "status_code (gcn_predict env r) \<noteq> 422" for r
    by (cases "gcn_predict env r") (auto simp: gcn_predict_def try_500_def split: sum.splits)
  then show ?thesis
    by (simp add: post_gcn_predict_def post_gcn_compare_def endpoint_def
        validate_GCNRequest_def validate_MultiModelRequest_def)
qed

text \<open>\<open>AdvancedGCNRequest\<close> does carry the bound.\<close>

lemma advanced_train_epochs_bounded:
  "AdvancedGCNRequest.train_epochs req < 0 \<or> 500 < AdvancedGCNRequest.train_epochs req \<Longrightarrow>
   status_code (post_gcn_advanced env req) = 422"
  by (auto simp: post_gcn_advanced_def endpoint_def validate_AdvancedGCNRequest_def field_int_def
      split: list.splits)

subsection \<open>POST /gcn/advanced\<close>

lemma advanced_create_model_raises:
  "create_model env mt f (advanced_kwargs req) \<noteq> Inr mw"
proof (cases "map_of models mt")
  case None
  then show ?thesis by (simp add: create_model_def)
next
  case (Some cls)
  then have "cls \<in> {SimpleGCN, DeepGCN, GATModel, HybridGCN, TemporalGCN}"
    by (auto simp: models_def split: if_splits)
  then have "\<exists>e. bind_kwargs (snd cls) (advanced_kwargs req) = Inl e"
    by (auto simp: advanced_kwargs_def SimpleGCN_def DeepGCN_def GATModel_def HybridGCN_def
        TemporalGCN_def)
  with Some show ?thesis
    by (auto simp: create_model_def instantiate_def bind_exc_def)
qed

lemma gcn_advanced_never_succeeds: "gcn_advanced env req \<noteq> Inr resp"
  by (auto simp: gcn_advanced_def try_500_Inr_iff bind_exc_Inr_iff advanced_create_model_raises
      split: if_splits prod.splits)

lemma gcn_advanced_always_500: "\<exists>d. gcn_advanced env req = Inl (HTTPException 500 d)"
proof -
  obtain body where body: "gcn_advanced env req = try_500 body"
    by (simp add: gcn_advanced_def)
  from try_500_cases[of body] gcn_advanced_never_succeeds[of env req] body
  show ?thesis by auto
qed

text \<open>
  Claim C1, on the code. The claim asks for a success response for every valid request with a
  supported model type. The handler passes \<open>hidden\<close>, \<open>hidden_dims\<close> and \<open>dropout\<close> to every
  constructor, and no class accepts all three, so \<open>create_model\<close> raises \<open>TypeError\<close> and the
  handler answers 500. Evaluated on a valid two-node request with the default model type.
\<close>

theorem advanced_simple_request_is_500:
  "post_gcn_advanced env
     \<lparr>AdvancedGCNRequest.nodes = [''A'', ''B''], features = [[Fin 1, Fin 0], [Fin 0, Fin 1]],
      adjacency = Some [[0, 1]], returns = None, model_type = ''simple'', train_epochs = 50,
      hidden_dim = 32, dropout = Fin (2 / 10), learning_rate = Fin (1 / 100),
      correlation_threshold = Fin (3 / 10), use_knn_graph = False, knn_k = 5\<rparr> =
   Inl (HTTPException 500
         (StrOf (TypeError ''__init__() got an unexpected keyword argument hidden_dims'')))"
  by (simp add: post_gcn_advanced_def endpoint_def validate_AdvancedGCNRequest_def field_int_def
      field_float_def f_le_def gcn_advanced_def try_500_def bind_exc_def build_graph_def
      advanced_graph_source_def build_adj_matrix_def add_edge_def add_self_loops_def zeros_def
      set_item_def ncols_def normalize_adj_def inv_sqrt_degrees_def Let_def np_sum_def np_where_def np_diag_def
      matmul_def dot_def column_def create_model_def models_def instantiate_def SimpleGCN_def
      advanced_kwargs_def upt_rec numeral_nat)

subsection \<open>Graph source of /gcn/advanced\<close>

text \<open>
  Claim C7, as amended. In \<open>/gcn/advanced\<close> one graph source is used per request, in
  priority order: a non-empty adjacency edge list; otherwise the correlation graph of a
  non-empty returns matrix; otherwise the k-NN graph when \<open>use_knn_graph\<close> is set; otherwise
  the fully-connected graph. An empty list counts as absent.
\<close>

theorem advanced_graph_source_priority:
  "(\<forall>e es. AdvancedGCNRequest.adjacency req = Some (e # es) \<longrightarrow>
      build_graph env (advanced_graph_source req) X n t k = build_adj_matrix n (e # es)) \<and>
   (\<forall>r rs. falsy (AdvancedGCNRequest.adjacency req) \<and> AdvancedGCNRequest.returns req = Some (r # rs) \<longrightarrow>
      build_graph env (advanced_graph_source req) X n t k =
        bind_exc (np_array (r # rs)) (\<lambda>a.
        bind_exc (build_correlation_graph env a t) (\<lambda>A. broadcast2 f_add A (np_eye n)))) \<and>
   (falsy (AdvancedGCNRequest.adjacency req) \<and> falsy (AdvancedGCNRequest.returns req) \<and>
    use_knn_graph req \<longrightarrow>
      build_graph env (advanced_graph_source req) X n t k =
        bind_exc (build_knn_graph env X k) (\<lambda>A. broadcast2 f_add A (np_eye n))) \<and>
   (falsy (AdvancedGCNRequest.adjacency req) \<and> falsy (AdvancedGCNRequest.returns req) \<and>
    \<not> use_knn_graph req \<longrightarrow>
      build_graph env (advanced_graph_source req) X n t k = Inr (ones n n))"
  by (auto simp: advanced_graph_source_def build_graph_def falsy_def)

theorem advanced_graph_source_priority_witness:
  "build_graph toy_libs
     (advanced_graph_source (example_request (Some [[0, 1]]) (Some [[Fin 1, Fin 2], [Fin 2, Fin 1]]) True))
     [[Fin 1, Fin 0], [Fin 0, Fin 1]] 2 (Fin (3 / 10)) 5 = build_adj_matrix 2 [[0, 1]]
   \<and> build_graph toy_libs
     (advanced_graph_source (example_request None (Some [[Fin 1, Fin 2], [Fin 2, Fin 1]]) True))
     [[Fin 1, Fin 0], [Fin 0, Fin 1]] 2 (Fin (3 / 10)) 5 = Inl (LibraryError ''corrcoef'')
   \<and> build_graph toy_libs
     (advanced_graph_source (example_request None None True))
     [[Fin 1, Fin 0], [Fin 0, Fin 1]] 2 (Fin (3 / 10)) 5 = Inl (LibraryError ''kneighbors_graph'')
   \<and> build_graph toy_libs
     (advanced_graph_source (example_request None None False))
     [[Fin 1, Fin 0], [Fin 0, Fin 1]] 2 (Fin (3 / 10)) 5 = Inr [[Fin 1, Fin 1], [Fin 1, Fin 1]]"
  using advanced_graph_source_priority[of
      "example_request (Some [[0, 1]]) (Some [[Fin 1, Fin 2], [Fin 2, Fin 1]]) True"
      toy_libs "[[Fin 1, Fin 0], [Fin 0, Fin 1]]" 2 "Fin (3 / 10)" 5]
    advanced_graph_source_priority[of
      "example_request None (Some [[Fin 1, Fin 2], [Fin 2, Fin 1]]) True"
      toy_libs "[[Fin 1, Fin 0], [Fin 0, Fin 1]]" 2 "Fin (3 / 10)" 5]
    advanced_graph_source_priority[of
      "example_request None None True"
      toy_libs "[[Fin 1, Fin 0], [Fin 0, Fin 1]]" 2 "Fin (3 / 10)" 5]
    advanced_graph_source_priority[of
      "example_request None None False"
      toy_libs "[[Fin 1, Fin 0], [Fin 0, Fin 1]]" 2 "Fin (3 / 10)" 5]
  by (simp add: example_request_def falsy_def toy_libs_def build_correlation_graph_def
      build_knn_graph_def bind_exc_def ones_def numeral_nat)

text \<open>
  Claim C7 as stated fails for an adjacency list that is supplied and empty: the handler
  does not use it (which would give the identity matrix) and falls through to the
  fully-connected graph.
\<close>

theorem empty_adjacency_is_not_used:
  "AdvancedGCNRequest.adjacency (example_request (Some []) None False) = Some []
   \<and> build_graph toy_libs (advanced_graph_source (example_request (Some []) None False))
        [[Fin 1, Fin 0], [Fin 0, Fin 1]] 2 (Fin (3 / 10)) 5 = Inr [[Fin 1, Fin 1], [Fin 1, Fin 1]]
   \<and> build_adj_matrix 2 [] = Inr [[Fin 1, Fin 0], [Fin 0, Fin 1]]"
  by (simp add: example_request_def advanced_graph_source_def build_graph_def ones_def
      build_adj_matrix_def add_self_loops_def zeros_def set_item_def ncols_def bind_exc_def
      Let_def upt_rec numeral_nat)

subsection \<open>POST /gcn/compare\<close>












lemma compare_one_via_run:
  "compare_one env req n f x adj mtype =
     bind_exc (library_run env mtype f x adj (MultiModelRequest.train_epochs req)) (\<lambda>sc.
     bind_exc (normalize_scores sc) (\<lambda>norm_scores.
     bind_exc (dict_of_nodes (MultiModelRequest.nodes req) norm_scores n) (\<lambda>d.
     bind_exc (pairs_of_nodes (MultiModelRequest.nodes req) norm_scores n) (\<lambda>ps.
       Inr (ModelScores d (take 5 (sorted_desc snd ps)))))))"
  by (simp add: compare_one_def library_run_def bind_exc_def split: sum.splits prod.splits)


lemma library_run_temporal: "library_run env ''temporal'' f x adj ep \<noteq> Inr sc"
  by (auto simp: library_run_def create_model_def models_def instantiate_def TemporalGCN_def
      forward_def bind_exc_def split: sum.splits prod.splits)









lemma compare_temporal_never_scores:
  "\<exists>e. compare_one env req n f x adj ''temporal'' = Inl e"
  using library_run_temporal[of env f x adj "MultiModelRequest.train_epochs req"]
  by (cases "library_run env ''temporal'' f x adj (MultiModelRequest.train_epochs req)")
     (auto simp: compare_one_via_run bind_exc_def)

subsection \<open>normalize_scores\<close>














subsection \<open>normalize_adj\<close>












lemma np_where_nth:
  assumes "length c = n" "length a = n" "length b = n"
  shows "length (np_where c a b) = n"
    and "i < n \<Longrightarrow> np_where c a b ! i = (if c ! i then a ! i else b ! i)"
  using assms by (simp_all add: np_where_def)












lemma masked_quotient_is_infinite: "f_div (Fin 1) (f_sqrt (Fin 0)) = PInf"
  by simp

lemma unmasked_product_is_nan: "f_mul (f_div (Fin 1) (f_sqrt (Fin 0))) (Fin 0) = NaN"
  by (simp add: inf_of_sign_def)



subsection \<open>HybridGCN.forward\<close>

lemma bind_exc_Inl: "bind_exc (Inl e) k = Inl e"
  and bind_exc_Inr: "bind_exc (Inr v) k = k v"
  by (simp_all add: bind_exc_def)

lemma add_bias_same:
  "length b = cols t \<Longrightarrow> \<exists>y. add_bias t b = Inr y \<and> rows y = rows t \<and> cols y = cols t"
  by (simp add: add_bias_def)

lemma conv_forward_shape:
  assumes "conv_shape l i k" "GraphConvLayer_forward l x adj = Inr y"
  shows "rows y = rows adj \<and> cols y = k"
proof -
  from assms(1) obtain b where b: "GraphConvLayer.bias l = Some b" "length b = k"
    and w: "cols (GraphConvLayer.weight l) = k"
    by (auto simp: conv_shape_def split: option.splits)
  from assms(2) obtain s out where
    s: "torch_mm x (GraphConvLayer.weight l) = Inr s" and out: "torch_mm adj s = Inr out"
    and y: "add_bias out b = Inr y"
    by (auto simp: GraphConvLayer_forward_def bind_exc_Inr_iff b)
  from s w have "cols s = k" by (auto simp: torch_mm_def split: if_splits)
  with out have o: "rows out = rows adj" "cols out = k" by (auto simp: torch_mm_def split: if_splits)
  from add_bias_same[of b out] b(2) o y show ?thesis by auto
qed

lemma linear_forward_ok:
  assumes "linear_shape l i k" "cols x = i"
  shows "\<exists>y. Linear_forward l x = Inr y \<and> rows y = rows x \<and> cols y = k"
  using assms by (simp add: Linear_forward_def linear_shape_def add_bias_def)

lemma linear_forward_shape:
  assumes "linear_shape l i k" "Linear_forward l x = Inr y"
  shows "rows y = rows x \<and> cols y = k"
proof -
  from assms have "cols x = i" by (auto simp: Linear_forward_def linear_shape_def split: if_splits)
  from linear_forward_ok[OF assms(1) this] assms(2) show ?thesis by auto
qed

lemma dropout_shape:
  "F_dropout t p tr keep = Inr d \<Longrightarrow> rows d = rows t \<and> cols d = cols t"
  by (auto simp: F_dropout_def split: if_splits)

lemma relu_shape: "rows (F_relu t) = rows t" "cols (F_relu t) = cols t"
  by (simp_all add: F_relu_def map_tensor_def)

lemma sequential_mlp_shape:
  assumes "linear_shape l3 j k" "sequential_mlp l0 l3 p tr keep x = Inr y"
  shows "cols y = k"
  using assms linear_forward_shape[OF assms(1)]
  by (auto simp: sequential_mlp_def bind_exc_Inr_iff)

lemma cat_shape:
  "torch_cat a b = Inr c \<Longrightarrow> rows a = rows b \<and> rows c = rows a \<and> cols c = cols a + cols b"
  by (auto simp: torch_cat_def split: if_splits)

lemma elementwise_column:
  assumes "rows a = rows b" "cols a = 1"
  shows "\<exists>y. elementwise g a b = Inr y \<and> rows y = rows b \<and> cols y = cols b"
  using assms by (simp add: elementwise_def bdim_def)

lemma elementwise_same:
  assumes "rows a = rows b" "cols a = cols b"
  shows "\<exists>y. elementwise g a b = Inr y"
  using assms by (simp add: elementwise_def bdim_def)

lemma attention_block:
  assumes init: "hybrid_init m f g k"
    and hg: "rows h_gcn = rows combined" "cols h_gcn = g"
    and hm: "rows h_mlp = rows combined" "cols h_mlp = g"
    and c: "cols combined = g * 2"
  shows "bind_exc (attention m combined) (\<lambda>weights.
         bind_exc (elementwise f_mul (slice_cols weights 0 1) h_gcn) (\<lambda>p0.
         bind_exc (elementwise f_mul (slice_cols weights 1 2) h_mlp) (\<lambda>p1.
         bind_exc (elementwise f_add p0 p1) (\<lambda>h_fused. rest)))) = rest"
proof -
  from init have att: "linear_shape (attention_0 m) (g * 2) 2" by (simp add: hybrid_init_def)
  from linear_forward_ok[OF att c] obtain a where
    a: "Linear_forward (attention_0 m) combined = Inr a" "rows a = rows combined" "cols a = 2"
    by blast
  let ?w = "softmax a"
  have w: "attention m combined = Inr ?w" by (simp add: attention_def a(1) bind_exc_Inr)
  have ws: "rows ?w = rows combined" "cols ?w = 2" using a by (simp_all add: softmax_def)
  have s0: "rows (slice_cols ?w 0 1) = rows h_gcn" "cols (slice_cols ?w 0 1) = 1"
    and s1: "rows (slice_cols ?w 1 2) = rows h_mlp" "cols (slice_cols ?w 1 2) = 1"
    using ws hg hm by (simp_all add: slice_cols_def)
  from elementwise_column[OF s0] obtain p0 where
    p0: "elementwise f_mul (slice_cols ?w 0 1) h_gcn = Inr p0" "rows p0 = rows h_gcn" "cols p0 = cols h_gcn"
    by blast
  from elementwise_column[OF s1] obtain p1 where
    p1: "elementwise f_mul (slice_cols ?w 1 2) h_mlp = Inr p1" "rows p1 = rows h_mlp" "cols p1 = cols h_mlp"
    by blast
  have "rows p0 = rows p1" "cols p0 = cols p1" using p0 p1 hg hm by simp_all
  from elementwise_same[OF this] obtain hf where hf: "elementwise f_add p0 p1 = Inr hf" by blast
  show ?thesis by (simp only: w p0(1) p1(1) hf bind_exc_Inr)
qed


lemma hybrid_forward_eq:
  assumes init: "hybrid_init m f g k"
  shows "HybridGCN_forward m keeps x adj = fusion_of_branches m keeps x adj"
proof (cases "gcn_branch m (keeps 0) x adj")
  case (Inl e)
  then show ?thesis
    by (auto simp: HybridGCN_forward_def fusion_of_branches_def gcn_branch_def bind_exc_def
        split: sum.splits)
next
  case (Inr h_gcn)
  then obtain a h where
    a: "GraphConvLayer_forward (gcn1 m) x adj = Inr a"
    and h: "F_dropout (F_relu a) (dropout_p m) (training_mode m) (keeps 0) = Inr h"
    and g2: "GraphConvLayer_forward (gcn2 m) h adj = Inr h_gcn"
    by (auto simp: gcn_branch_def bind_exc_Inr_iff)
  from init have shapes: "conv_shape (gcn2 m) g g" "linear_shape (mlp_3 m) g g"
    by (simp_all add: hybrid_init_def)
  have hg: "cols h_gcn = g" using conv_forward_shape[OF shapes(1) g2] by simp
  show ?thesis
  proof (cases "mlp m (keeps 1) x")
    case (Inl e)
    show ?thesis
      by (simp only: HybridGCN_forward_def fusion_of_branches_def Inr Inl a h g2
          bind_exc_Inr bind_exc_Inl)
  next
    case hm: (Inr h_mlp)
    have hmc: "cols h_mlp = g"
      using sequential_mlp_shape[OF shapes(2)] hm by (simp add: mlp_def)
    show ?thesis
    proof (cases "torch_cat h_gcn h_mlp")
      case (Inl e)
      show ?thesis
        by (simp only: HybridGCN_forward_def fusion_of_branches_def Inr Inl a h g2 hm
            bind_exc_Inr bind_exc_Inl)
    next
      case c: (Inr combined)
      from cat_shape[OF c] hg hmc have
        sh: "rows h_gcn = rows combined" "rows h_mlp = rows combined" "cols combined = g * 2"
        by simp_all
      show ?thesis
        by (simp only: HybridGCN_forward_def fusion_of_branches_def Inr a h g2 hm c bind_exc_Inr
            attention_block[OF init sh(1) hg sh(2) hmc sh(3)])
    qed
  qed
qed

lemma fusion_of_branches_attention:
  "fusion_of_branches (m\<lparr>attention_0 := att\<rparr>) keeps x adj = fusion_of_branches m keeps x adj"
  by (simp add: fusion_of_branches_def gcn_branch_def mlp_def fusion_def)

lemma hybrid_init_attention:
  "hybrid_init m f g k \<Longrightarrow> linear_shape att (g * 2) 2 \<Longrightarrow> hybrid_init (m\<lparr>attention_0 := att\<rparr>) f g k"
  by (simp add: hybrid_init_def)

text \<open>
  Claim C9. For every instance that \<open>__init__\<close> builds, every draw of the dropout masks
  and every input, \<open>HybridGCN.forward\<close> returns exactly the fusion MLP applied to the
  concatenation of the GCN-branch output and the MLP-branch output, exceptions included; the
  attention weights and the weighted sum computed from them have no effect: replacing the
  attention layer by any other layer of its shape leaves the result unchanged.
\<close>

theorem hybrid_forward_ignores_attention:
  assumes init: "hybrid_init m f g k"
  shows "HybridGCN_forward m keeps x adj = fusion_of_branches m keeps x adj \<and>
         (\<forall>att. linear_shape att (g * 2) 2 \<longrightarrow>
            HybridGCN_forward (m\<lparr>attention_0 := att\<rparr>) keeps x adj = HybridGCN_forward m keeps x adj)"
proof -
  have 1: "HybridGCN_forward m keeps x adj = fusion_of_branches m keeps x adj"
    by (rule hybrid_forward_eq[OF init])
  have "HybridGCN_forward (m\<lparr>attention_0 := att\<rparr>) keeps x adj = HybridGCN_forward m keeps x adj"
    if "linear_shape att (g * 2) 2" for att
    using hybrid_forward_eq[OF hybrid_init_attention[OF init that]] 1
    by (simp add: fusion_of_branches_attention)
  with 1 show ?thesis by blast
qed

lemma hybrid_example_value:
  "fusion_of_branches hybrid_example (\<lambda>c i j. True) (const_tensor 2 1 1) (const_tensor 2 2 (1 / 2))
     = Inr (Vector [Fin 2, Fin 2])"
  by (simp add: fusion_of_branches_def gcn_branch_def mlp_def fusion_def sequential_mlp_def
      hybrid_example_def const_tensor_def GraphConvLayer_forward_def torch_mm_def add_bias_def
      Linear_forward_def F_dropout_def F_relu_def map_tensor_def torch_cat_def squeeze_last_def
      bind_exc_def np_sum_def f_le_def upt_rec numeral_nat)

theorem hybrid_forward_ignores_attention_witness:
  "hybrid_init hybrid_example 1 1 1 \<and>
   HybridGCN_forward hybrid_example (\<lambda>c i j. True) (const_tensor 2 1 1) (const_tensor 2 2 (1 / 2))
     = Inr (Vector [Fin 2, Fin 2]) \<and>
   linear_shape \<lparr>Linear.weight = const_tensor 2 2 7, bias = [Fin 3, Fin (- 1)]\<rparr> (1 * 2) 2 \<and>
   HybridGCN_forward
     (hybrid_example\<lparr>attention_0 := \<lparr>Linear.weight = const_tensor 2 2 7, bias = [Fin 3, Fin (- 1)]\<rparr>\<rparr>)
     (\<lambda>c i j. True) (const_tensor 2 1 1) (const_tensor 2 2 (1 / 2))
     = Inr (Vector [Fin 2, Fin 2])"
proof -
  have init: "hybrid_init hybrid_example 1 1 1"
    by (simp add: hybrid_init_def hybrid_example_def conv_shape_def linear_shape_def const_tensor_def)
  have att: "linear_shape \<lparr>Linear.weight = const_tensor 2 2 7, bias = [Fin 3, Fin (- 1)]\<rparr> (1 * 2) 2"
    by (simp add: linear_shape_def const_tensor_def)
  from hybrid_forward_ignores_attention[OF init, of "\<lambda>c i j. True" "const_tensor 2 1 1"
      "const_tensor 2 2 (1 / 2)"] att init hybrid_example_value
  show ?thesis by simp
qed

end
